theory Spec2Isabelle
  imports Complex_Main "HOL-Library.Word" "HOL-Library.Log_Nat"
begin

section \<open>The bank chaincode of hlf-course\<close>

text \<open>
  A shallow embedding of \<^verbatim>\<open>chaincode/hlf-course-chaincode-bank/bank-chaincode.go\<close>:
  the five handlers of the \<^verbatim>\<open>actions\<close> table and \<^verbatim>\<open>Invoke\<close>.
  The handlers only talk to the outside through the chaincode stub and three library
  functions, so the model has two parameters: a record \<open>golib\<close> of the library
  functions, and a record \<open>stub\<close> holding the ledger, the answers of the ports and the
  log of the port calls made so far. Each handler takes the stub and returns the stub as
  it is after the call, together with what the Go function did: it returned a
  \<^verbatim>\<open>peer.Response\<close>, or it panicked.
\<close>

subsection \<open>float64\<close>

text \<open>
  \<^verbatim>\<open>Balance\<close> and the parsed amount are Go \<^verbatim>\<open>float64\<close>, that is IEEE 754
  binary64. A value is a rational number, an infinity or a NaN; the two zeros are one
  value (they compare equal, and the handlers only subtract, add and compare). The
  operations compute the exact rational result and round it to the nearest binary64
  number, ties to the even significand: 53 bits of significand, exponents from
  \<open>-1022\<close> (below that the spacing stays \<open>2 powi -1074\<close>, the subnormal numbers) to
  \<open>1023\<close> (a rounded magnitude of \<open>2 ^ 1024\<close> or more is an infinity).
\<close>

datatype float64 = Finite rat | PosInf | NegInf | NaN

text \<open>The \<open>k\<close> with \<open>2 powi k \<le> x < 2 powi (k + 1)\<close>, for positive \<open>x\<close>.\<close>

definition floor_log2 :: "rat \<Rightarrow> int" where
  "floor_log2 x =
     (let (p, q) = quotient_of x; k = bitlen p - bitlen q
      in if 2 powi k \<le> x then k else k - 1)"

text \<open>The distance between neighbouring binary64 numbers around \<open>x\<close>.\<close>

definition binary64_ulp :: "rat \<Rightarrow> rat" where
  "binary64_ulp x = 2 powi (max (floor_log2 \<bar>x\<bar>) (- 1022) - 52)"

definition round_half_even :: "rat \<Rightarrow> int" where
  "round_half_even y =
     (let f = \<lfloor>y\<rfloor>; d = y - of_int f
      in if d < 1 / 2 then f else if 1 / 2 < d then f + 1
         else if even f then f else f + 1)"

definition round64 :: "rat \<Rightarrow> float64" where
  "round64 x =
     (if x = 0 then Finite 0
      else let u = binary64_ulp x; r = of_int (round_half_even (x / u)) * u
           in if 2 ^ 1024 \<le> \<bar>r\<bar> then (if 0 < x then PosInf else NegInf) else Finite r)"

text \<open>A value that a float64 variable can hold: rounding leaves it as it is.\<close>

fun is_float64 :: "float64 \<Rightarrow> bool" where
  "is_float64 (Finite q) = (round64 q = Finite q)"
| "is_float64 _ = True"

text \<open>Go's \<^verbatim>\<open>x - y\<close>, \<^verbatim>\<open>x + y\<close>, \<^verbatim>\<open>x < y\<close> and \<^verbatim>\<open>x <= y\<close> on float64.\<close>

fun float64_sub :: "float64 \<Rightarrow> float64 \<Rightarrow> float64" where
  "float64_sub NaN _ = NaN"
| "float64_sub _ NaN = NaN"
| "float64_sub PosInf PosInf = NaN"
| "float64_sub NegInf NegInf = NaN"
| "float64_sub PosInf _ = PosInf"
| "float64_sub NegInf _ = NegInf"
| "float64_sub (Finite a) PosInf = NegInf"
| "float64_sub (Finite a) NegInf = PosInf"
| "float64_sub (Finite a) (Finite b) = round64 (a - b)"

fun float64_add :: "float64 \<Rightarrow> float64 \<Rightarrow> float64" where
  "float64_add NaN _ = NaN"
| "float64_add _ NaN = NaN"
| "float64_add PosInf NegInf = NaN"
| "float64_add NegInf PosInf = NaN"
| "float64_add PosInf _ = PosInf"
| "float64_add NegInf _ = NegInf"
| "float64_add (Finite a) PosInf = PosInf"
| "float64_add (Finite a) NegInf = NegInf"
| "float64_add (Finite a) (Finite b) = round64 (a + b)"

fun float64_less :: "float64 \<Rightarrow> float64 \<Rightarrow> bool" where
  "float64_less NaN _ = False"
| "float64_less _ NaN = False"
| "float64_less (Finite a) (Finite b) = (a < b)"
| "float64_less PosInf _ = False"
| "float64_less _ NegInf = False"
| "float64_less NegInf _ = True"
| "float64_less (Finite a) PosInf = True"

fun float64_le :: "float64 \<Rightarrow> float64 \<Rightarrow> bool" where
  "float64_le NaN _ = False"
| "float64_le _ NaN = False"
| "float64_le (Finite a) (Finite b) = (a \<le> b)"
| "float64_le NegInf _ = True"
| "float64_le _ PosInf = True"
| "float64_le PosInf _ = False"
| "float64_le (Finite a) NegInf = False"

subsection \<open>Data\<close>

text \<open>
  \<^verbatim>\<open>type BankAccount struct { PersonID uint64; AccountNumber string; Balance float64 }\<close>
\<close>

record BankAccount =
  PersonID :: "64 word"
  AccountNumber :: string
  Balance :: float64

text \<open>
  \<^verbatim>\<open>peer.Response\<close> with the fields the handlers and the shim set. The shim's
  \<^verbatim>\<open>Success\<close> takes bytes; \<^verbatim>\<open>getBalance\<close> hands it a float64 and
  \<^verbatim>\<open>getHistory\<close> a slice of strings, so the payload is a tagged value.
\<close>

datatype payload = NoPayload | Bytes string | Number float64 | Lines "string list"

record Response =
  Status :: int
  Message :: string
  Payload :: payload

definition shim_OK :: int where
  "shim_OK = 200"

definition shim_ERROR :: int where
  "shim_ERROR = 500"

definition shim_Success :: "payload \<Rightarrow> Response" where
  "shim_Success p = \<lparr>Status = shim_OK, Message = [], Payload = p\<rparr>"

definition shim_Error :: "string \<Rightarrow> Response" where
  "shim_Error msg = \<lparr>Status = shim_ERROR, Message = msg, Payload = NoPayload\<rparr>"

text \<open>What a call of a handler does: it returns a response, or the goroutine panics.\<close>

datatype outcome = Return Response | Panic

text \<open>One entry of a key's history, as the history iterator's \<^verbatim>\<open>Next\<close> returns it.\<close>

record KeyModification =
  TxId :: string
  Value :: string
  IsDelete :: bool

subsection \<open>The library functions\<close>

text \<open>
  \<^verbatim>\<open>json.Unmarshal\<close> into a fresh \<^verbatim>\<open>BankAccount\<close>, \<^verbatim>\<open>json.Marshal\<close> of one
  and \<^verbatim>\<open>strconv.ParseFloat(s, 64)\<close> are functions of Go's standard library; an error
  is its message. \<^verbatim>\<open>json.Marshal\<close> returns the bytes and an error, and no bytes
  (nil, the empty string) with an error: it refuses a balance that is an infinity or
  a NaN. Two expressions of the source have no Go meaning, since they use a
  byte slice as something else, and are parameters too: \<open>state_Balance\<close> is
  \<^verbatim>\<open>accountState.Balance\<close> on the bytes that \<^verbatim>\<open>GetState\<close> returned, and
  \<open>value_ge_zero\<close> is \<^verbatim>\<open>response.Value >= 0\<close> on the bytes of a history entry.
\<close>

record golib =
  json_Unmarshal :: "string \<Rightarrow> string + BankAccount"
  json_Marshal :: "BankAccount \<Rightarrow> string \<times> string option"
  strconv_ParseFloat :: "string \<Rightarrow> string + float64"
  state_Balance :: "string \<Rightarrow> float64"
  value_ge_zero :: "string \<Rightarrow> bool"

text \<open>\<^verbatim>\<open>fmt.Sprintf("%d", n)\<close> for an unsigned \<open>n\<close>: its decimal digits.\<close>

definition digit_char :: "nat \<Rightarrow> char" where
  "digit_char d = ''0123456789'' ! d"

function fmt_d :: "nat \<Rightarrow> string" where
  "fmt_d n = (if n < 10 then [digit_char n] else fmt_d (n div 10) @ [digit_char (n mod 10)])"
  by pat_completeness auto
termination
  by (relation "measure (\<lambda>n. n)") auto

declare fmt_d.simps [simp del]

text \<open>\<^verbatim>\<open>%s\<close> of an \<^verbatim>\<open>error\<close> that is \<^verbatim>\<open>nil\<close>.\<close>

definition fmt_s_nil :: string where
  "fmt_s_nil = ''%!s(<nil>)''"

subsection \<open>The chaincode stub\<close>

text \<open>
  The ports of \<^verbatim>\<open>shim.ChaincodeStubInterface\<close> that the handlers call. \<open>ledger\<close> is
  the key-value state; a \<open>_fault\<close> field says which calls of a port report an error,
  and with which message; \<open>chaincode_response\<close> is what \<^verbatim>\<open>InvokeChaincode\<close> answers;
  \<open>key_history\<close> is what \<^verbatim>\<open>GetHistoryForKey\<close> answers: an error (the shim then
  returns a nil iterator), or the entries the iterator will produce, each one an error
  of \<^verbatim>\<open>Next\<close> or a modification. \<open>calls\<close> logs every port call in the order made.
\<close>

datatype port_call =
    GetStateCall string
  | PutStateCall string string
  | DelStateCall string
  | InvokeChaincodeCall string "string list" string
  | GetHistoryForKeyCall string

record stub =
  function_and_parameters :: "string \<times> string list"
  ledger :: "string \<rightharpoonup> string"
  GetState_fault :: "string \<Rightarrow> string option"
  PutState_fault :: "string \<Rightarrow> string \<Rightarrow> string option"
  DelState_fault :: "string \<Rightarrow> string option"
  chaincode_response :: "string \<Rightarrow> string list \<Rightarrow> string \<Rightarrow> Response"
  key_history :: "string \<Rightarrow> string + (string + KeyModification) list"
  calls :: "port_call list"

definition GetFunctionAndParameters :: "stub \<Rightarrow> string \<times> string list" where
  "GetFunctionAndParameters s = function_and_parameters s"

text \<open>\<^verbatim>\<open>GetState\<close>: an error, or the bytes under the key, \<open>None\<close> being Go's nil.\<close>

definition GetState :: "stub \<Rightarrow> string \<Rightarrow> (string + string option) \<times> stub" where
  "GetState s key =
     (case GetState_fault s key of
        Some err \<Rightarrow> (Inl err, s\<lparr>calls := calls s @ [GetStateCall key]\<rparr>)
      | None \<Rightarrow> (Inr (ledger s key), s\<lparr>calls := calls s @ [GetStateCall key]\<rparr>))"

text \<open>
  \<^verbatim>\<open>PutState\<close>: the error it reports, if any; a write that faults changes nothing.
  An accepted write goes into \<open>ledger\<close> at once; no handler reads a key after it has
  written one, so the handlers see the state as it was before the invocation.
\<close>

definition PutState :: "stub \<Rightarrow> string \<Rightarrow> string \<Rightarrow> string option \<times> stub" where
  "PutState s key val =
     (case PutState_fault s key val of
        Some err \<Rightarrow> (Some err, s\<lparr>calls := calls s @ [PutStateCall key val]\<rparr>)
      | None \<Rightarrow> (None, s\<lparr>ledger := (ledger s)(key \<mapsto> val),
                           calls := calls s @ [PutStateCall key val]\<rparr>))"

definition DelState :: "stub \<Rightarrow> string \<Rightarrow> string option \<times> stub" where
  "DelState s key =
     (case DelState_fault s key of
        Some err \<Rightarrow> (Some err, s\<lparr>calls := calls s @ [DelStateCall key]\<rparr>)
      | None \<Rightarrow> (None, s\<lparr>ledger := (ledger s)(key := None),
                           calls := calls s @ [DelStateCall key]\<rparr>))"

definition InvokeChaincode :: "stub \<Rightarrow> string \<Rightarrow> string list \<Rightarrow> string \<Rightarrow> Response \<times> stub" where
  "InvokeChaincode s name args channel =
     (chaincode_response s name args channel,
      s\<lparr>calls := calls s @ [InvokeChaincodeCall name args channel]\<rparr>)"

definition GetHistoryForKey ::
  "stub \<Rightarrow> string \<Rightarrow> (string + (string + KeyModification) list) \<times> stub" where
  "GetHistoryForKey s key =
     (key_history s key, s\<lparr>calls := calls s @ [GetHistoryForKeyCall key]\<rparr>)"

subsection \<open>The handlers\<close>

text \<open>
  Each handler follows its Go closure statement by statement. Where the source builds a
  response with \<^verbatim>\<open>shim.Error\<close> and does not return it, the model binds that
  response to \<open>dropped\<close> and goes on, as the Go code does. \<^verbatim>\<open>transfer\<close> writes
  \<^verbatim>\<open>stub.PutState(from, json.Marshal(senderAccount))\<close>: the bytes of
  \<^verbatim>\<open>json.Marshal\<close> go to \<^verbatim>\<open>PutState\<close>, and its error is looked at nowhere.
\<close>

definition addAccount :: "golib \<Rightarrow> stub \<Rightarrow> string list \<Rightarrow> outcome \<times> stub" where
  "addAccount lib stub params =
     (if length params \<noteq> 1 then (Return (shim_Error ''wrong number of arguments''), stub)
      else case json_Unmarshal lib (params ! 0) of
        Inl err \<Rightarrow>
          (Return (shim_Error
             (''failed to desirialize bank account information error '' @ err)), stub)
      | Inr account \<Rightarrow>
          let personID = fmt_d (unat (PersonID account));
              (response, stub1) =
                 InvokeChaincode stub ''personCC'' [''getPerson'', personID] ''mychannel''
          in if Status response = shim_ERROR
             then (Return (shim_Error
                     (''failed to create bank account for person with id '' @ personID
                        @ '', due to '' @ fmt_s_nil)), stub1)
             else case GetState stub1 (AccountNumber account) of
               (Inl err, stub2) \<Rightarrow>
                 (Return (shim_Error (''failed to create bank account due to '' @ err)), stub2)
             | (Inr accountState, stub2) \<Rightarrow>
                 if accountState \<noteq> None
                 then (Return (shim_Error
                         (''bank account with number '' @ AccountNumber account
                            @ '' already exists'')), stub2)
                 else let (err, stub3) = PutState stub2 (AccountNumber account) (params ! 0);
                          dropped =
                            (case err of
                               Some e \<Rightarrow>
                                 Some (shim_Error
                                   (''failed to save bank account with number ''
                                      @ AccountNumber account @ '', due to '' @ e))
                             | None \<Rightarrow> None)
                      in (Return (shim_Success NoPayload), stub3))"

definition delAccount :: "golib \<Rightarrow> stub \<Rightarrow> string list \<Rightarrow> outcome \<times> stub" where
  "delAccount lib stub params =
     (if length params \<noteq> 1 then (Return (shim_Error ''wrong number of parameters''), stub)
      else let accountId = params ! 0
           in case GetState stub accountId of
             (Inl err, stub1) \<Rightarrow>
               (Return (shim_Error (''failed to get account information due to '' @ err)), stub1)
           | (Inr accountState, stub1) \<Rightarrow>
               if accountState = None
               then (Return (shim_Error
                       (''bank account with number '' @ accountId @ '' doesn't exists'')), stub1)
               else case DelState stub1 accountId of
                 (Some err, stub2) \<Rightarrow>
                   (Return (shim_Error
                      (''failed to delete account id '' @ params ! 0 @ '', due to '' @ err)),
                    stub2)
               | (None, stub2) \<Rightarrow> (Return (shim_Success NoPayload), stub2))"

definition getBalance :: "golib \<Rightarrow> stub \<Rightarrow> string list \<Rightarrow> outcome \<times> stub" where
  "getBalance lib stub params =
     (if length params \<noteq> 1 then (Return (shim_Error ''wrong number of parameters''), stub)
      else let accountId = params ! 0
           in case GetState stub accountId of
             (Inl err, stub1) \<Rightarrow>
               (Return (shim_Error (''failed to get account information due to '' @ err)), stub1)
           | (Inr None, stub1) \<Rightarrow>
               (Return (shim_Error
                  (''bank account with number '' @ accountId @ '' doesn't exists'')), stub1)
           | (Inr (Some accountState), stub1) \<Rightarrow>
               (Return (shim_Success (Number (state_Balance lib accountState))), stub1))"

definition transfer :: "golib \<Rightarrow> stub \<Rightarrow> string list \<Rightarrow> outcome \<times> stub" where
  "transfer lib stub params =
     (if length params \<noteq> 3
      then (Return (shim_Error ''wrong number of parameters(use: from, to, amount)''), stub)
      else let from = params ! 0; to = params ! 1
      in case strconv_ParseFloat lib (params ! 2) of
        Inl err \<Rightarrow> (Return (shim_Error ''failed to convert amount string to number''), stub)
      | Inr amount \<Rightarrow>
     (case GetState stub from of
        (Inl err, stub1) \<Rightarrow>
          (Return (shim_Error
             (''failed to get sender account information due to '' @ err)), stub1)
      | (Inr None, stub1) \<Rightarrow>
          (Return (shim_Error
             (''sender bank account with number '' @ from @ '' doesn't exists'')), stub1)
      | (Inr (Some senderState), stub1) \<Rightarrow>
     (case json_Unmarshal lib senderState of
        Inl err \<Rightarrow>
          (Return (shim_Error
             (''failed to read senderState '' @ senderState @ '', due to '' @ err)), stub1)
      | Inr senderAccount \<Rightarrow>
          if float64_less (float64_sub (Balance senderAccount) amount) (Finite 0)
          then (Return (shim_Error ''sender doesn't have enough money''), stub1)
          else
     (case GetState stub1 to of
        (Inl err, stub2) \<Rightarrow>
          (Return (shim_Error
             (''failed to get receiver account information due to '' @ err)), stub2)
      | (Inr None, stub2) \<Rightarrow>
          (Return (shim_Error
             (''receiver bank account with number '' @ to @ '' doesn't exists'')), stub2)
      | (Inr (Some receiverState), stub2) \<Rightarrow>
     (case json_Unmarshal lib receiverState of
        Inl err \<Rightarrow>
          (Return (shim_Error
             (''failed to read senderState '' @ senderState @ '', due to '' @ err)), stub2)
      | Inr receiverAccount \<Rightarrow>
          let senderAccount' =
                senderAccount\<lparr>Balance := float64_sub (Balance senderAccount) amount\<rparr>;
              receiverAccount' =
                receiverAccount\<lparr>Balance := float64_add (Balance receiverAccount) amount\<rparr>;
              (err1, stub3) = PutState stub2 from (fst (json_Marshal lib senderAccount'));
              dropped1 =
                (case err1 of
                   Some e \<Rightarrow>
                     Some (shim_Error
                       (''failed to update balance of '' @ from @ '', due to '' @ e))
                 | None \<Rightarrow> None);
              (err2, stub4) = PutState stub3 to (fst (json_Marshal lib receiverAccount'));
              dropped2 =
                (case err2 of
                   Some e \<Rightarrow>
                     Some (shim_Error
                       (''failed to update balance of '' @ to @ '', due to '' @ e))
                 | None \<Rightarrow> None)
          in (Return (shim_Success NoPayload), stub4))))))"

text \<open>
  The loop of \<^verbatim>\<open>getHistory\<close>: \<^verbatim>\<open>HasNext\<close> holds while entries are left, and
  \<^verbatim>\<open>Next\<close> takes the first. The result is the response returned from inside the
  loop, or the lines collected when the iterator is exhausted.
\<close>

fun history_loop ::
  "golib \<Rightarrow> (string + KeyModification) list \<Rightarrow> string list \<Rightarrow> Response + string list" where
  "history_loop lib [] history = Inr history"
| "history_loop lib (Inl err # rest) history =
     Inl (shim_Error ''failed get Next() for historyIterator'')"
| "history_loop lib (Inr response # rest) history =
     history_loop lib rest
       (history @ [if value_ge_zero lib (Value response)
                   then ''+'' @ Value response else Value response])"

text \<open>
  When \<^verbatim>\<open>GetHistoryForKey\<close> reports an error, the handler builds a response and
  drops it; the iterator is nil, and \<^verbatim>\<open>historyIterator.HasNext()\<close> is a call
  through a nil interface value, which panics.
\<close>

definition getHistory :: "golib \<Rightarrow> stub \<Rightarrow> string list \<Rightarrow> outcome \<times> stub" where
  "getHistory lib stub params =
     (if length params \<noteq> 1 then (Return (shim_Error ''wrong number of parameters''), stub)
      else let accountId = params ! 0;
               (res, stub1) = GetHistoryForKey stub accountId;
               dropped =
                 (case res of
                    Inl err \<Rightarrow>
                      Some (shim_Error
                        (''failed to read history of '' @ accountId @ '', due to '' @ err))
                  | Inr _ \<Rightarrow> None)
           in case res of
             Inl err \<Rightarrow> (Panic, stub1)
           | Inr historyIterator \<Rightarrow>
               (case history_loop lib historyIterator [] of
                  Inl response \<Rightarrow> (Return response, stub1)
                | Inr history \<Rightarrow> (Return (shim_Success (Lines history)), stub1)))"

subsection \<open>Dispatch\<close>

definition actions :: "string \<rightharpoonup> (golib \<Rightarrow> stub \<Rightarrow> string list \<Rightarrow> outcome \<times> stub)" where
  "actions =
     [''addAccount'' \<mapsto> addAccount,
      ''delAccount'' \<mapsto> delAccount,
      ''getBalance'' \<mapsto> getBalance,
      ''transfer'' \<mapsto> transfer,
      ''getHistory'' \<mapsto> getHistory]"

definition Invoke :: "golib \<Rightarrow> stub \<Rightarrow> outcome \<times> stub" where
  "Invoke lib stub =
     (let (funcName, params) = GetFunctionAndParameters stub
      in case actions funcName of
        None \<Rightarrow> (Return (shim_Error ''unknown operation''), stub)
      | Some action \<Rightarrow> action lib stub params)"

text \<open>
  The balance a reader of the ledger finds under a key: the \<^verbatim>\<open>Balance\<close> of the
  record that the stored bytes decode to.
\<close>

definition stored_Balance :: "golib \<Rightarrow> stub \<Rightarrow> string \<Rightarrow> float64 option" where
  "stored_Balance lib s key =
     (case ledger s key of
        None \<Rightarrow> None
      | Some bytes \<Rightarrow>
          (case json_Unmarshal lib bytes of Inl err \<Rightarrow> None | Inr account \<Rightarrow> Some (Balance account)))"

text \<open>The exact sum of two stored balances, when both are there and finite.\<close>

fun balance_sum :: "float64 option \<Rightarrow> float64 option \<Rightarrow> rat option" where
  "balance_sum (Some (Finite a)) (Some (Finite b)) = Some (a + b)"
| "balance_sum _ _ = None"

subsection \<open>A concrete library and ledger\<close>

text \<open>
  Concrete values for the two parameters, on which the handlers are run below. The
  library knows a handful of account records, each with the JSON text that Go's
  \<^verbatim>\<open>encoding/json\<close> writes for it (the struct tags of \<^verbatim>\<open>BankAccount\<close> lack their
  quotes, so the keys are the field names), and a handful of amounts. The ledger holds
  account \<^verbatim>\<open>ACC-1\<close> of person 42 with balance 100 and account \<^verbatim>\<open>ACC-2\<close> of
  person 43 with balance 0; no port faults, and the registry accepts every person.
\<close>

definition account_json :: "string \<Rightarrow> string \<Rightarrow> string \<Rightarrow> string" where
  "account_json person number balance =
     ''{'' @ [CHR 0x22] @ ''PersonID'' @ [CHR 0x22] @ '':'' @ person @ '',''
       @ [CHR 0x22] @ ''AccountNumber'' @ [CHR 0x22] @ '':'' @ [CHR 0x22] @ number @ [CHR 0x22] @ '',''
       @ [CHR 0x22] @ ''Balance'' @ [CHR 0x22] @ '':'' @ balance @ ''}''"

definition acc1 :: "rat \<Rightarrow> BankAccount" where
  "acc1 b = \<lparr>PersonID = 42, AccountNumber = ''ACC-1'', Balance = Finite b\<rparr>"

definition acc2 :: "rat \<Rightarrow> BankAccount" where
  "acc2 b = \<lparr>PersonID = 43, AccountNumber = ''ACC-2'', Balance = Finite b\<rparr>"

definition demo_records :: "(string \<times> BankAccount) list" where
  "demo_records =
     [(account_json ''42'' ''ACC-1'' ''100'', acc1 100),
      (account_json ''43'' ''ACC-2'' ''0'', acc2 0),
      (account_json ''42'' ''ACC-1'' ''70'', acc1 70),
      (account_json ''43'' ''ACC-2'' ''30'', acc2 30),
      (account_json ''42'' ''ACC-1'' ''130'', acc1 130),
      (account_json ''42'' ''ACC-1'' ''9007199254740994'', acc1 9007199254740994),
      (account_json ''43'' ''ACC-2'' ''1'', acc2 1),
      (account_json ''42'' ''ACC-1'' ''2'', acc1 2),
      (account_json ''43'' ''ACC-2'' ''9007199254740992'', acc2 9007199254740992),
      (account_json ''42'' ''ACC-1'' ''9007199254740992'', acc1 9007199254740992),
      (account_json ''42'' ''ACC-1'' ''9007199254740991'', acc1 9007199254740991)]"

definition demo_Unmarshal :: "string \<Rightarrow> string + BankAccount" where
  "demo_Unmarshal bytes =
     (case map_of demo_records bytes of
        Some account \<Rightarrow> Inr account
      | None \<Rightarrow> Inl ''invalid character'')"

definition demo_Marshal :: "BankAccount \<Rightarrow> string \<times> string option" where
  "demo_Marshal account =
     (case find (\<lambda>(bytes, a). a = account) demo_records of
        Some (bytes, a) \<Rightarrow> (bytes, None)
      | None \<Rightarrow> ([], Some ''json: unsupported value''))"

definition demo_ParseFloat :: "string \<Rightarrow> string + float64" where
  "demo_ParseFloat s =
     (if s = ''30'' then Inr (Finite 30)
      else if s = ''1'' then Inr (Finite 1)
      else if s = ''150'' then Inr (Finite 150)
      else if s = ''9007199254740992'' then Inr (Finite 9007199254740992)
      else Inl ''invalid syntax'')"

definition demo_lib :: golib where
  "demo_lib =
     \<lparr>json_Unmarshal = demo_Unmarshal,
      json_Marshal = demo_Marshal,
      strconv_ParseFloat = demo_ParseFloat,
      state_Balance = (\<lambda>bytes. Finite 0),
      value_ge_zero = (\<lambda>bytes. True)\<rparr>"

definition demo_stub :: stub where
  "demo_stub =
     \<lparr>function_and_parameters = ([], []),
      ledger = [''ACC-1'' \<mapsto> account_json ''42'' ''ACC-1'' ''100'',
                ''ACC-2'' \<mapsto> account_json ''43'' ''ACC-2'' ''0''],
      GetState_fault = (\<lambda>key. None),
      PutState_fault = (\<lambda>key val. None),
      DelState_fault = (\<lambda>key. None),
      chaincode_response = (\<lambda>name args channel. shim_Success NoPayload),
      key_history = (\<lambda>key. Inr []),
      calls = []\<rparr>"

text \<open>
  The same ledger with balances \<open>2 ^ 53 + 2\<close> and \<open>1\<close>: above \<open>2 ^ 53\<close> the
  float64 numbers are the even integers.
\<close>

definition rounding_stub :: stub where
  "rounding_stub =
     demo_stub\<lparr>ledger :=
       [''ACC-1'' \<mapsto> account_json ''42'' ''ACC-1'' ''9007199254740994'',
        ''ACC-2'' \<mapsto> account_json ''43'' ''ACC-2'' ''1'']\<rparr>"

text \<open>
  And with the balance \<open>2 ^ 53\<close> for \<^verbatim>\<open>ACC-1\<close>: the next float64 number above
  it is \<open>2 ^ 53 + 2\<close>.
\<close>

definition absorbing_stub :: stub where
  "absorbing_stub =
     demo_stub\<lparr>ledger :=
       [''ACC-1'' \<mapsto> account_json ''42'' ''ACC-1'' ''9007199254740992'']\<rparr>"

section \<open>Properties\<close>

subsection \<open>Rounding keeps the sign\<close>

text \<open>
  \<open>floor_log2\<close> is the binary exponent, so \<open>binary64_ulp\<close> is the spacing of
  binary64 around its argument. What the handlers need of the arithmetic is the sign
  of a rounded difference: the difference of two float64 values is a multiple of
  \<open>2 powi -1074\<close>, so it does not round to zero unless it is zero.
\<close>

lemma bitlen_rat_bounds:assumes "0 < p"
  shows "(2::rat) powi (bitlen p - 1) \<le> of_int p" and "(of_int p :: rat) < 2 powi (bitlen p)"
proof -
  from bitlen_bounds [OF assms]
  have lo: "2 ^ nat (bitlen p - 1) \<le> p" and hi: "p < 2 ^ nat (bitlen p)" by auto
  have b1: "1 \<le> bitlen p" using assms by (simp add: bitlen_alt_def)
  have "(of_int (2 ^ nat (bitlen p - 1)) :: rat) \<le> of_int p"
    using lo by (simp only: of_int_le_iff)
  then show "(2::rat) powi (bitlen p - 1) \<le> of_int p"
    using b1 by (simp add: power_int_def)
  have "(of_int p :: rat) < of_int (2 ^ nat (bitlen p))"
    using hi by (simp only: of_int_less_iff)
  then show "(of_int p :: rat) < 2 powi (bitlen p)"
    using b1 by (simp add: power_int_def)
qed

lemma floor_log2_lower:
  assumes "0 < x"
  shows "2 powi (floor_log2 x) \<le> x"
proof -
  obtain p q where pq: "quotient_of x = (p, q)" by (cases "quotient_of x")
  have x: "x = of_int p / of_int q" and q: "0 < q"
    using pq by (simp_all add: quotient_of_div quotient_of_denom_pos)
  have p: "0 < p" using assms x q by (simp add: zero_less_divide_iff)
  let ?k = "bitlen p - bitlen q"
  have "(2::rat) powi (?k - 1) \<le> x"
  proof -
    have "(2::rat) powi (?k - 1) = 2 powi (bitlen p - 1) / 2 powi (bitlen q)"
      by (simp add: power_int_diff)
    also have "\<dots> \<le> of_int p / of_int q"
      using bitlen_rat_bounds [OF p] bitlen_rat_bounds [OF q] q p
      by (intro frac_le) simp_all
    finally show ?thesis by (simp add: x)
  qed
  then show ?thesis by (simp add: floor_log2_def pq Let_def)
qed

lemma floor_log2_upper:
  assumes "0 < x"
  shows "x < 2 powi (floor_log2 x + 1)"
proof -
  obtain p q where pq: "quotient_of x = (p, q)" by (cases "quotient_of x")
  have x: "x = of_int p / of_int q" and q: "0 < q"
    using pq by (simp_all add: quotient_of_div quotient_of_denom_pos)
  have p: "0 < p" using assms x q by (simp add: zero_less_divide_iff)
  let ?k = "bitlen p - bitlen q"
  have "x < (2::rat) powi (?k + 1)"
  proof -
    have "of_int p / of_int q < (2::rat) powi (bitlen p) / 2 powi (bitlen q - 1)"
      using bitlen_rat_bounds [OF p] bitlen_rat_bounds [OF q] q p
      by (intro frac_less) simp_all
    also have "\<dots> = 2 powi (?k + 1)"
      by (simp add: power_int_diff power_int_add)
    finally show ?thesis by (simp add: x)
  qed
  then show ?thesis by (auto simp add: floor_log2_def pq Let_def)
qed

lemma binary64_ulp_pos: "0 < binary64_ulp x"
  by (simp add: binary64_ulp_def)

lemma binary64_ulp_le_abs:
  assumes "2 powi (- 1074) \<le> \<bar>x\<bar>"
  shows "binary64_ulp x \<le> \<bar>x\<bar>"
proof (cases "- 1022 \<le> floor_log2 \<bar>x\<bar>")
  case True
  have pos: "0 < \<bar>x\<bar>" 
  proof -
    have "(0::rat) < 2 powi (- 1074)" by simp
    then show ?thesis using assms by linarith
  qed
  have "binary64_ulp x = 2 powi (floor_log2 \<bar>x\<bar> - 52)"
    using True by (simp add: binary64_ulp_def max_def)
  also have "\<dots> \<le> 2 powi (floor_log2 \<bar>x\<bar>)"
    by (rule power_int_increasing) simp_all
  also have "\<dots> \<le> \<bar>x\<bar>" by (rule floor_log2_lower [OF pos])
  finally show ?thesis .
next
  case False
  then have "binary64_ulp x = 2 powi (- 1074)"
    by (simp add: binary64_ulp_def max_def)
  then show ?thesis using assms by simp
qed

lemma round_half_even_nonneg: "0 \<le> y \<Longrightarrow> 0 \<le> round_half_even y"
  by (auto simp add: round_half_even_def Let_def)

lemma round_half_even_neg: "y \<le> - 1 \<Longrightarrow> round_half_even y \<le> - 1"
proof -
  assume y: "y \<le> - 1"
  then have f: "\<lfloor>y\<rfloor> \<le> - 1" by (simp add: floor_le_iff)
  show ?thesis
  proof (cases "\<lfloor>y\<rfloor> = - 1")
    case True
    then have "y - of_int \<lfloor>y\<rfloor> \<le> 0" using y by simp
    then show ?thesis using True by (simp add: round_half_even_def Let_def)
  next
    case False
    then have "\<lfloor>y\<rfloor> + 1 \<le> - 1" using f by linarith
    then show ?thesis using f by (auto simp add: round_half_even_def Let_def)
  qed
qed

lemma round64_nonneg:
  assumes "0 \<le> x"
  shows "round64 x = PosInf \<or> (\<exists>r. 0 \<le> r \<and> round64 x = Finite r)"
proof (cases "x = 0")
  case True
  then show ?thesis by (simp add: round64_def)
next
  case False
  then have x: "0 < x" using assms by simp
  have "0 \<le> x / binary64_ulp x"
    using x binary64_ulp_pos [of x] by simp
  then have "0 \<le> round_half_even (x / binary64_ulp x)"
    by (rule round_half_even_nonneg)
  then have "0 \<le> of_int (round_half_even (x / binary64_ulp x)) * binary64_ulp x"
    using binary64_ulp_pos [of x] by simp
  then show ?thesis using x by (simp add: round64_def Let_def)
qed

lemma round64_neg:
  assumes "x \<le> - (2 powi (- 1074))"
  shows "round64 x = NegInf \<or> (\<exists>r. r < 0 \<and> round64 x = Finite r)"
proof -
  have p: "(0::rat) < 2 powi (- 1074)" by simp
  have x: "x < 0" using assms p by linarith
  have "2 powi (- 1074) \<le> \<bar>x\<bar>" using assms x by simp
  then have "binary64_ulp x \<le> \<bar>x\<bar>" by (rule binary64_ulp_le_abs)
  then have "binary64_ulp x \<le> - x" using x by simp
  then have "x / binary64_ulp x \<le> - 1"
    using binary64_ulp_pos [of x] by (simp add: pos_divide_le_eq)
  then have "round_half_even (x / binary64_ulp x) \<le> - 1"
    by (rule round_half_even_neg)
  then have "(of_int (round_half_even (x / binary64_ulp x)) :: rat) < 0"
    by simp
  then have "of_int (round_half_even (x / binary64_ulp x)) * binary64_ulp x < 0"
    using binary64_ulp_pos [of x] by (simp add: mult_less_0_iff)
  then show ?thesis using x by (simp add: round64_def Let_def)
qed

lemma is_float64_grid:
  assumes "round64 q = Finite q"
  shows "\<exists>n::int. q = of_int n * 2 powi (- 1074)"
proof (cases "q = 0")
  case True
  then show ?thesis by (intro exI [of _ 0]) simp
next
  case False
  define j where "j = max (floor_log2 \<bar>q\<bar>) (- 1022) - 52"
  define m where "m = round_half_even (q / binary64_ulp q)"
  have u: "binary64_ulp q = 2 powi j" by (simp add: binary64_ulp_def j_def)
  have j: "- 1074 \<le> j" by (simp add: j_def)
  have "q = of_int m * 2 powi j"
    using assms False by (simp add: round64_def Let_def m_def u split: if_splits)
  also have "(2::rat) powi j = 2 powi (j + 1074) * 2 powi (- 1074)"
  proof -
    have "(2::rat) powi ((j + 1074) + (- 1074)) = 2 powi (j + 1074) * 2 powi (- 1074)"
      by (rule power_int_add) simp
    moreover have "(j + 1074) + (- 1074) = j" by simp
    ultimately show ?thesis by (simp only:)
  qed
  also have "(2::rat) powi (j + 1074) = of_int (2 ^ nat (j + 1074))"
    using j by (simp add: power_int_def)
  finally have "q = of_int (m * 2 ^ nat (j + 1074)) * 2 powi (- 1074)"
    by (simp only: of_int_mult mult.assoc)
  then show ?thesis by blast
qed

lemma grid_diff_neg:
  assumes "round64 a = Finite a" and "round64 b = Finite b" and "a < b"
  shows "a - b \<le> - (2 powi (- 1074))"
proof -
  define g :: rat where "g = 2 powi (- 1074)"
  have g: "0 < g" by (simp add: g_def)
  obtain n m :: int where n: "a = of_int n * g" and m: "b = of_int m * g"
    using is_float64_grid [OF assms(1)] is_float64_grid [OF assms(2)]
    unfolding g_def by blast
  have "of_int n * g < of_int m * g" using assms(3) by (simp only: n m)
  then have "(of_int n :: rat) < of_int m" using g by (simp only: mult_less_cancel_right_pos)
  then have "n - m \<le> - 1" by simp
  then have "(of_int (n - m) :: rat) \<le> of_int (- 1)" by (simp only: of_int_le_iff)
  then have "of_int (n - m) * g \<le> of_int (- 1) * g"
    using g by (simp only: mult_le_cancel_right_pos)
  then have "a - b \<le> - g" by (simp add: n m algebra_simps)
  then show ?thesis by (simp only: g_def)
qed

lemma float64_sub_less_zero:
  assumes "is_float64 a" and "is_float64 b" and "float64_less a b"
  shows "float64_less (float64_sub a b) (Finite 0)"
proof (cases a)
  case (Finite x)
  note a = this
  show ?thesis
  proof (cases b)
    case (Finite y)
    have "x - y \<le> - (2 powi (- 1074))"
      using assms a Finite by (intro grid_diff_neg) simp_all
    from round64_neg [OF this] show ?thesis by (auto simp add: a Finite)
  qed (use assms a in simp_all)
next
  case PosInf
  then show ?thesis using assms by (cases b) simp_all
next
  case NegInf
  then show ?thesis using assms by (cases b) simp_all
qed (use assms in simp_all)

lemma float64_sub_not_less_zero:
  assumes "float64_le b a"
  shows "\<not> float64_less (float64_sub a b) (Finite 0)"
proof (cases a)
  case (Finite x)
  note a = this
  show ?thesis
  proof (cases b)
    case (Finite y)
    have "0 \<le> x - y" using assms a Finite by simp
    from round64_nonneg [OF this] show ?thesis by (auto simp add: a Finite)
  qed (use assms a in simp_all)
next
  case PosInf
  then show ?thesis using assms by (cases b) simp_all
next
  case NegInf
  then show ?thesis using assms by (cases b) simp_all
qed (use assms in simp_all)

text \<open>Every integer below \<open>2 ^ 53\<close> in magnitude is a float64 value.\<close>

lemma round_half_even_of_int: "round_half_even (of_int k) = k"
  by (simp add: round_half_even_def)

lemma round64_of_int:
  assumes "\<bar>n\<bar> < 2 ^ 53"
  shows "round64 (of_int n) = Finite (of_int n)"
proof (cases "n = 0")
  case True
  then show ?thesis by (simp add: round64_def)
next
  case False
  define x :: rat where "x = of_int n"
  define e where "e = floor_log2 \<bar>x\<bar>"
  have x1: "1 \<le> \<bar>x\<bar>" using False by (simp add: x_def flip: of_int_abs)
  have x53: "\<bar>x\<bar> < 2 powi 53"
  proof -
    have "(of_int \<bar>n\<bar> :: rat) < of_int (2 ^ 53)" using assms by (simp only: of_int_less_iff)
    then show ?thesis by (simp add: x_def)
  qed
  have pos: "0 < \<bar>x\<bar>" using x1 by linarith
  have lo: "2 powi e \<le> \<bar>x\<bar>" unfolding e_def by (rule floor_log2_lower [OF pos])
  have hi: "\<bar>x\<bar> < 2 powi (e + 1)" unfolding e_def by (rule floor_log2_upper [OF pos])
  have e0: "0 \<le> e"
  proof (rule ccontr)
    assume "\<not> 0 \<le> e"
    then have "e + 1 \<le> 0" by simp
    then have "(2::rat) powi (e + 1) \<le> 2 powi 0" by (intro power_int_increasing) simp_all
    then show False using hi x1 by simp
  qed
  have e52: "e \<le> 52"
  proof (rule ccontr)
    assume "\<not> e \<le> 52"
    then have "53 \<le> e" by simp
    then have "(2::rat) powi 53 \<le> 2 powi e" by (intro power_int_increasing) simp_all
    then show False using lo x53 by linarith
  qed
  have u: "binary64_ulp x = 2 powi (e - 52)"
    using e0 by (simp add: binary64_ulp_def e_def max_def)
  have upos: "(0::rat) < 2 powi (e - 52)" by simp
  have "x / 2 powi (e - 52) = x * 2 powi (52 - e)"
    by (simp add: power_int_diff field_simps)
  also have "(2::rat) powi (52 - e) = of_int (2 ^ nat (52 - e))"
    using e52 by (simp add: power_int_def)
  finally have "x / 2 powi (e - 52) = of_int n * of_int (2 ^ nat (52 - e))"
    by (simp only: x_def)
  then have q: "x / binary64_ulp x = of_int (n * 2 ^ nat (52 - e))"
    by (simp only: u of_int_mult)
  have r: "of_int (round_half_even (x / binary64_ulp x)) * binary64_ulp x = x"
  proof -
    have "of_int (round_half_even (x / binary64_ulp x)) = x / binary64_ulp x"
      by (simp only: q round_half_even_of_int)
    then show ?thesis using upos by (simp add: u)
  qed
  have small: "\<not> 2 ^ 1024 \<le> \<bar>x\<bar>"
  proof -
    have "(2::rat) powi 53 \<le> 2 powi 1024" by (intro power_int_increasing) simp_all
    then have "\<bar>x\<bar> < 2 powi 1024" using x53 by linarith
    then show ?thesis by simp
  qed
  have "x \<noteq> 0" using pos by simp
  then have "round64 x = Finite x"
    using small by (simp add: round64_def Let_def r)
  then show ?thesis by (simp only: x_def)
qed

subsection \<open>The concrete library and ledger, evaluated\<close>

lemma fmt_d_42: "fmt_d 42 = ''42''"
  by (simp add: fmt_d.simps digit_char_def)

lemma demo_Unmarshal_acc1_100:
  "json_Unmarshal demo_lib (account_json ''42'' ''ACC-1'' ''100'') = Inr (acc1 100)"
  by (simp add: demo_lib_def demo_Unmarshal_def demo_records_def account_json_def)

lemma demo_Unmarshal_acc2_0:
  "json_Unmarshal demo_lib (account_json ''43'' ''ACC-2'' ''0'') = Inr (acc2 0)"
  by (simp add: demo_lib_def demo_Unmarshal_def demo_records_def account_json_def)

lemma demo_Unmarshal_malformed:
  "json_Unmarshal demo_lib ''not json'' = Inl ''invalid character''"
  by (simp add: demo_lib_def demo_Unmarshal_def demo_records_def account_json_def)

lemma demo_ParseFloat_30: "strconv_ParseFloat demo_lib ''30'' = Inr (Finite 30)"
  by (simp add: demo_lib_def demo_ParseFloat_def)

lemma demo_ParseFloat_150: "strconv_ParseFloat demo_lib ''150'' = Inr (Finite 150)"
  by (simp add: demo_lib_def demo_ParseFloat_def)

lemma demo_ledger_acc1:
  "ledger demo_stub ''ACC-1'' = Some (account_json ''42'' ''ACC-1'' ''100'')"
  by (simp add: demo_stub_def)

lemma demo_ledger_acc2:
  "ledger demo_stub ''ACC-2'' = Some (account_json ''43'' ''ACC-2'' ''0'')"
  by (simp add: demo_stub_def)

lemma demo_no_faults:
  "GetState_fault demo_stub key = None" "PutState_fault demo_stub key val = None"
  by (simp_all add: demo_stub_def)

lemma round64_demo:
  "round64 70 = Finite 70" "round64 30 = Finite 30" "round64 130 = Finite 130"
  "round64 100 = Finite 100" "round64 150 = Finite 150"
  using round64_of_int [of 70] round64_of_int [of 30] round64_of_int [of 130]
    round64_of_int [of 100] round64_of_int [of 150]
  by simp_all

lemma demo_Marshal_acc1_70:
  "json_Marshal demo_lib (acc1 70) = (account_json ''42'' ''ACC-1'' ''70'', None)"
  by (simp add: demo_lib_def demo_Marshal_def demo_records_def acc1_def acc2_def)

lemma demo_Marshal_acc2_30:
  "json_Marshal demo_lib (acc2 30) = (account_json ''43'' ''ACC-2'' ''30'', None)"
  by (simp add: demo_lib_def demo_Marshal_def demo_records_def acc1_def acc2_def)

lemma demo_Marshal_acc1_130:
  "json_Marshal demo_lib (acc1 130) = (account_json ''42'' ''ACC-1'' ''130'', None)"
  by (simp add: demo_lib_def demo_Marshal_def demo_records_def acc1_def acc2_def)

lemma demo_Unmarshal_acc1_70:
  "json_Unmarshal demo_lib (account_json ''42'' ''ACC-1'' ''70'') = Inr (acc1 70)"
  by (simp add: demo_lib_def demo_Unmarshal_def demo_records_def account_json_def)

lemma demo_Unmarshal_acc2_30:
  "json_Unmarshal demo_lib (account_json ''43'' ''ACC-2'' ''30'') = Inr (acc2 30)"
  by (simp add: demo_lib_def demo_Unmarshal_def demo_records_def account_json_def)

lemma demo_Unmarshal_acc1_130:
  "json_Unmarshal demo_lib (account_json ''42'' ''ACC-1'' ''130'') = Inr (acc1 130)"
  by (simp add: demo_lib_def demo_Unmarshal_def demo_records_def account_json_def)

lemma acc1_Balance: "(acc1 b)\<lparr>Balance := Finite c\<rparr> = acc1 c" "Balance (acc1 b) = Finite b"
  by (simp_all add: acc1_def)

lemma acc2_Balance: "(acc2 b)\<lparr>Balance := Finite c\<rparr> = acc2 c" "Balance (acc2 b) = Finite b"
  by (simp_all add: acc2_def)

subsection \<open>Write faults\<close>

text \<open>
  Claim C1 says that a fault of \<^verbatim>\<open>PutState\<close> makes \<^verbatim>\<open>addAccount\<close> and
  \<^verbatim>\<open>transfer\<close> return a failure. The handlers build the error response and drop
  it. Here the ledger refuses every write with "ledger unavailable". Creating
  \<^verbatim>\<open>ACC-1\<close> on an empty ledger returns success, and no record is stored under
  \<^verbatim>\<open>ACC-1\<close>; transferring 30 from \<^verbatim>\<open>ACC-1\<close> to \<^verbatim>\<open>ACC-2\<close> returns success,
  and the balances are still 100 and 0. In both runs the write was attempted: it is in
  the log of port calls.
\<close>

theorem PutState_fault_is_dropped:
  "fst (addAccount demo_lib
          (demo_stub\<lparr>ledger := Map.empty,
                      PutState_fault := (\<lambda>key val. Some ''ledger unavailable'')\<rparr>)
          [account_json ''42'' ''ACC-1'' ''100'']) = Return (shim_Success NoPayload)
   \<and> ledger (snd (addAccount demo_lib
          (demo_stub\<lparr>ledger := Map.empty,
                      PutState_fault := (\<lambda>key val. Some ''ledger unavailable'')\<rparr>)
          [account_json ''42'' ''ACC-1'' ''100''])) ''ACC-1'' = None
   \<and> calls (snd (addAccount demo_lib
          (demo_stub\<lparr>ledger := Map.empty,
                      PutState_fault := (\<lambda>key val. Some ''ledger unavailable'')\<rparr>)
          [account_json ''42'' ''ACC-1'' ''100''])) =
       [InvokeChaincodeCall ''personCC'' [''getPerson'', ''42''] ''mychannel'',
        GetStateCall ''ACC-1'',
        PutStateCall ''ACC-1'' (account_json ''42'' ''ACC-1'' ''100'')]
   \<and> fst (transfer demo_lib
          (demo_stub\<lparr>PutState_fault := (\<lambda>key val. Some ''ledger unavailable'')\<rparr>)
          [''ACC-1'', ''ACC-2'', ''30'']) = Return (shim_Success NoPayload)
   \<and> stored_Balance demo_lib (snd (transfer demo_lib
          (demo_stub\<lparr>PutState_fault := (\<lambda>key val. Some ''ledger unavailable'')\<rparr>)
          [''ACC-1'', ''ACC-2'', ''30''])) ''ACC-1'' = Some (Finite 100)
   \<and> stored_Balance demo_lib (snd (transfer demo_lib
          (demo_stub\<lparr>PutState_fault := (\<lambda>key val. Some ''ledger unavailable'')\<rparr>)
          [''ACC-1'', ''ACC-2'', ''30''])) ''ACC-2'' = Some (Finite 0)
   \<and> calls (snd (transfer demo_lib
          (demo_stub\<lparr>PutState_fault := (\<lambda>key val. Some ''ledger unavailable'')\<rparr>)
          [''ACC-1'', ''ACC-2'', ''30''])) =
       [GetStateCall ''ACC-1'', GetStateCall ''ACC-2'',
        PutStateCall ''ACC-1'' (account_json ''42'' ''ACC-1'' ''70''),
        PutStateCall ''ACC-2'' (account_json ''43'' ''ACC-2'' ''30'')]"
proof -
  have add: "addAccount demo_lib
          (demo_stub\<lparr>ledger := Map.empty,
                      PutState_fault := (\<lambda>key val. Some ''ledger unavailable'')\<rparr>)
          [account_json ''42'' ''ACC-1'' ''100''] =
        (Return (shim_Success NoPayload),
         demo_stub\<lparr>ledger := Map.empty,
                    PutState_fault := (\<lambda>key val. Some ''ledger unavailable''),
                    calls := [InvokeChaincodeCall ''personCC'' [''getPerson'', ''42''] ''mychannel'',
                              GetStateCall ''ACC-1'',
                              PutStateCall ''ACC-1'' (account_json ''42'' ''ACC-1'' ''100'')]\<rparr>)"
    by (simp add: addAccount_def demo_Unmarshal_acc1_100 InvokeChaincode_def GetState_def
        PutState_def Let_def acc1_def fmt_d_42 demo_no_faults)
       (simp add: demo_stub_def shim_Success_def shim_OK_def shim_ERROR_def)
  have tr: "transfer demo_lib
          (demo_stub\<lparr>PutState_fault := (\<lambda>key val. Some ''ledger unavailable'')\<rparr>)
          [''ACC-1'', ''ACC-2'', ''30''] =
        (Return (shim_Success NoPayload),
         demo_stub\<lparr>PutState_fault := (\<lambda>key val. Some ''ledger unavailable''),
                    calls := [GetStateCall ''ACC-1'', GetStateCall ''ACC-2'',
                              PutStateCall ''ACC-1'' (account_json ''42'' ''ACC-1'' ''70''),
                              PutStateCall ''ACC-2'' (account_json ''43'' ''ACC-2'' ''30'')]\<rparr>)"
    by (simp add: transfer_def demo_ParseFloat_30 GetState_def PutState_def Let_def
        demo_no_faults demo_ledger_acc1 demo_ledger_acc2 demo_Unmarshal_acc1_100
        demo_Unmarshal_acc2_0 acc1_Balance acc2_Balance round64_demo
        demo_Marshal_acc1_70 demo_Marshal_acc2_30)
       (simp add: demo_stub_def)
  show ?thesis
    by (simp only: add tr fst_conv snd_conv)
       (simp add: stored_Balance_def demo_ledger_acc1 demo_ledger_acc2
          demo_Unmarshal_acc1_100 demo_Unmarshal_acc2_0 acc1_Balance acc2_Balance)
qed

subsection \<open>addAccount\<close>

text \<open>
  Claim C5. \<^verbatim>\<open>addAccount\<close> never changes a record that is already stored: whatever
  the arguments and the answers of the ports, a key that holds a record before the call
  holds the same record after it. The handler writes only after \<^verbatim>\<open>GetState\<close> has
  returned nil for the key, so a key never gets a second record. And when the argument
  decodes, the registry does not report an error and the read of the account number
  returns the stored record, the call returns the error response
  "bank account with number ... already exists" (AlreadyExists); the stub that comes
  back has two new log entries, the registry call and the read, and nothing else
  changed.
\<close>

theorem addAccount_existing_account:
  "(ledger stub key = Some existing \<longrightarrow>
      ledger (snd (addAccount lib stub params)) key = Some existing)
   \<and> (params = [bytes] \<and> json_Unmarshal lib bytes = Inr account
        \<and> Status (chaincode_response stub ''personCC''
             [''getPerson'', fmt_d (unat (PersonID account))] ''mychannel'') \<noteq> shim_ERROR
        \<and> GetState_fault stub (AccountNumber account) = None
        \<and> ledger stub (AccountNumber account) = Some existing \<longrightarrow>
      addAccount lib stub params =
        (Return (shim_Error
           (''bank account with number '' @ AccountNumber account @ '' already exists'')),
         stub\<lparr>calls := calls stub @
           [InvokeChaincodeCall ''personCC''
              [''getPerson'', fmt_d (unat (PersonID account))] ''mychannel'',
            GetStateCall (AccountNumber account)]\<rparr>))"
  by (auto simp add: addAccount_def InvokeChaincode_def GetState_def PutState_def Let_def
      split: sum.split option.split)

theorem addAccount_existing_account_witness:
  "ledger demo_stub ''ACC-1'' = Some (account_json ''42'' ''ACC-1'' ''100'')
   \<and> json_Unmarshal demo_lib (account_json ''42'' ''ACC-1'' ''100'') = Inr (acc1 100)
   \<and> AccountNumber (acc1 100) = ''ACC-1''
   \<and> Status (chaincode_response demo_stub ''personCC''
         [''getPerson'', fmt_d (unat (PersonID (acc1 100)))] ''mychannel'') \<noteq> shim_ERROR
   \<and> GetState_fault demo_stub ''ACC-1'' = None
   \<and> ledger (snd (addAccount demo_lib demo_stub [account_json ''42'' ''ACC-1'' ''100'']))
         ''ACC-1'' = Some (account_json ''42'' ''ACC-1'' ''100'')
   \<and> addAccount demo_lib demo_stub [account_json ''42'' ''ACC-1'' ''100''] =
        (Return (shim_Error ''bank account with number ACC-1 already exists''),
         demo_stub\<lparr>calls :=
           [InvokeChaincodeCall ''personCC'' [''getPerson'', ''42''] ''mychannel'',
            GetStateCall ''ACC-1'']\<rparr>)"
proof -
  have h1: "ledger demo_stub ''ACC-1'' = Some (account_json ''42'' ''ACC-1'' ''100'')"
    by (rule demo_ledger_acc1)
  have h3: "json_Unmarshal demo_lib (account_json ''42'' ''ACC-1'' ''100'') = Inr (acc1 100)"
    by (rule demo_Unmarshal_acc1_100)
  have h4: "AccountNumber (acc1 100) = ''ACC-1''" by (simp add: acc1_def)
  have h5: "Status (chaincode_response demo_stub ''personCC''
         [''getPerson'', fmt_d (unat (PersonID (acc1 100)))] ''mychannel'') \<noteq> shim_ERROR"
    by (simp add: demo_stub_def shim_Success_def shim_OK_def shim_ERROR_def)
  have h6: "GetState_fault demo_stub ''ACC-1'' = None" by (rule demo_no_faults)
  have h7: "fmt_d (unat (PersonID (acc1 100))) = ''42''" by (simp add: acc1_def fmt_d_42)
  have h8: "calls demo_stub = []" by (simp add: demo_stub_def)
  from addAccount_existing_account
         [of demo_stub "''ACC-1''" "account_json ''42'' ''ACC-1'' ''100''" demo_lib
             "[account_json ''42'' ''ACC-1'' ''100'']"]
  have a: "ledger (snd (addAccount demo_lib demo_stub [account_json ''42'' ''ACC-1'' ''100'']))
             ''ACC-1'' = Some (account_json ''42'' ''ACC-1'' ''100'')"
    using h1 by blast
  from addAccount_existing_account
         [of demo_stub "''ACC-1''" "account_json ''42'' ''ACC-1'' ''100''" demo_lib
             "[account_json ''42'' ''ACC-1'' ''100'']" "account_json ''42'' ''ACC-1'' ''100''"
             "acc1 100"]
  have b: "addAccount demo_lib demo_stub [account_json ''42'' ''ACC-1'' ''100''] =
        (Return (shim_Error ''bank account with number ACC-1 already exists''),
         demo_stub\<lparr>calls :=
           [InvokeChaincodeCall ''personCC'' [''getPerson'', ''42''] ''mychannel'',
            GetStateCall ''ACC-1'']\<rparr>)"
    using h1 h3 h5 h6 by (simp add: h4 h7 h8)
  show ?thesis using h1 h3 h4 h5 h6 a b by simp
qed

text \<open>
  Claim C7 says that when the registry reports an error, the failure message of
  \<^verbatim>\<open>addAccount\<close> carries the registry's reason. The handler formats the message
  with \<^verbatim>\<open>err\<close>, the error of \<^verbatim>\<open>json.Unmarshal\<close>, which is nil at that point, and
  never reads \<^verbatim>\<open>response.Message\<close>: the call fails (PersonValidationError), and
  its message ends in \<^verbatim>\<open>%!s(<nil>)\<close> whatever the registry answered.
\<close>

theorem addAccount_person_error_message:
  assumes "params = [bytes]"
    and "json_Unmarshal lib bytes = Inr account"
    and "Status (chaincode_response stub ''personCC''
           [''getPerson'', fmt_d (unat (PersonID account))] ''mychannel'') = shim_ERROR"
  shows "fst (addAccount lib stub params) =
           Return (shim_Error
             (''failed to create bank account for person with id ''
                @ fmt_d (unat (PersonID account)) @ '', due to %!s(<nil>)''))"
  using assms by (simp add: addAccount_def InvokeChaincode_def Let_def fmt_s_nil_def)

theorem addAccount_person_error_message_witness:
  "json_Unmarshal demo_lib (account_json ''42'' ''ACC-1'' ''100'') = Inr (acc1 100)
   \<and> chaincode_response
         (demo_stub\<lparr>chaincode_response :=
            (\<lambda>name args channel. shim_Error ''person 42 is not registered'')\<rparr>)
         ''personCC'' [''getPerson'', fmt_d (unat (PersonID (acc1 100)))] ''mychannel'' =
       shim_Error ''person 42 is not registered''
   \<and> fst (addAccount demo_lib
         (demo_stub\<lparr>chaincode_response :=
            (\<lambda>name args channel. shim_Error ''person 42 is not registered'')\<rparr>)
         [account_json ''42'' ''ACC-1'' ''100'']) =
       Return (shim_Error
         ''failed to create bank account for person with id 42, due to %!s(<nil>)'')"
proof -
  have h2: "json_Unmarshal demo_lib (account_json ''42'' ''ACC-1'' ''100'') = Inr (acc1 100)"
    by (rule demo_Unmarshal_acc1_100)
  have h3: "Status (chaincode_response
         (demo_stub\<lparr>chaincode_response :=
            (\<lambda>name args channel. shim_Error ''person 42 is not registered'')\<rparr>)
         ''personCC'' [''getPerson'', fmt_d (unat (PersonID (acc1 100)))] ''mychannel'') =
       shim_ERROR"
    by (simp add: shim_Error_def)
  have h4: "fmt_d (unat (PersonID (acc1 100))) = ''42''" by (simp add: acc1_def fmt_d_42)
  from addAccount_person_error_message [OF refl h2 h3] h2 show ?thesis
    by (simp add: h4)
qed

subsection \<open>getBalance\<close>

text \<open>
  Claim C6 says that \<^verbatim>\<open>getBalance\<close> decodes the stored bytes and fails with
  DecodeError when they are malformed. The handler has no call of
  \<^verbatim>\<open>json.Unmarshal\<close> and no error return after the read: it takes
  \<^verbatim>\<open>accountState.Balance\<close> off the bytes as they are. Whenever the key holds bytes
  and the read reports no fault, the call returns success, also for bytes that
  \<^verbatim>\<open>json.Unmarshal\<close> rejects.
\<close>

theorem getBalance_never_decodes:
  assumes "params = [accountId]"
    and "GetState_fault stub accountId = None"
    and "ledger stub accountId = Some accountState"
  shows "fst (getBalance lib stub params) =
           Return (shim_Success (Number (state_Balance lib accountState)))"
  using assms by (simp add: getBalance_def GetState_def)

theorem getBalance_never_decodes_witness:
  "GetState_fault (demo_stub\<lparr>ledger := [''ACC-9'' \<mapsto> ''not json'']\<rparr>) ''ACC-9'' = None
   \<and> ledger (demo_stub\<lparr>ledger := [''ACC-9'' \<mapsto> ''not json'']\<rparr>) ''ACC-9'' = Some ''not json''
   \<and> json_Unmarshal demo_lib ''not json'' = Inl ''invalid character''
   \<and> fst (getBalance demo_lib (demo_stub\<lparr>ledger := [''ACC-9'' \<mapsto> ''not json'']\<rparr>) [''ACC-9'']) =
       Return (shim_Success (Number (state_Balance demo_lib ''not json'')))
   \<and> Status (shim_Success (Number (state_Balance demo_lib ''not json''))) = shim_OK"
proof -
  have h2: "GetState_fault (demo_stub\<lparr>ledger := [''ACC-9'' \<mapsto> ''not json'']\<rparr>) ''ACC-9'' = None"
    by (simp add: demo_no_faults)
  have h3: "ledger (demo_stub\<lparr>ledger := [''ACC-9'' \<mapsto> ''not json'']\<rparr>) ''ACC-9'' = Some ''not json''"
    by simp
  from getBalance_never_decodes [OF refl h2 h3, of demo_lib] h2 h3 demo_Unmarshal_malformed
  show ?thesis by (simp add: shim_Success_def)
qed

subsection \<open>transfer\<close>



text \<open>
  Claim C3. When the sender's record is there, decodes, and its balance is less than
  the amount, \<^verbatim>\<open>transfer\<close> returns the error response
  "sender doesn't have enough money" (InsufficientFunds). The stub that comes back
  differs from the one that went in by one log entry, the read of the sender's key:
  the ledger is untouched, and no \<^verbatim>\<open>PutState\<close> was called. The balance and the
  amount are float64 values, as everything that \<^verbatim>\<open>json.Unmarshal\<close> and
  \<^verbatim>\<open>strconv.ParseFloat\<close> store into a float64 is.
\<close>

theorem transfer_insufficient_funds:
  assumes "params = [A, B, amountText]"
    and "strconv_ParseFloat lib amountText = Inr amount"
    and "GetState_fault stub A = None"
    and "ledger stub A = Some senderState"
    and "json_Unmarshal lib senderState = Inr senderAccount"
    and "is_float64 (Balance senderAccount)"
    and "is_float64 amount"
    and "float64_less (Balance senderAccount) amount"
  shows "transfer lib stub params =
           (Return (shim_Error ''sender doesn't have enough money''),
            stub\<lparr>calls := calls stub @ [GetStateCall A]\<rparr>)"
proof -
  have "float64_less (float64_sub (Balance senderAccount) amount) (Finite 0)"
    using assms(6-8) by (rule float64_sub_less_zero)
  then show ?thesis
    using assms(1-5) by (simp add: transfer_def GetState_def)
qed

theorem transfer_insufficient_funds_witness:
  "strconv_ParseFloat demo_lib ''150'' = Inr (Finite 150)
   \<and> GetState_fault demo_stub ''ACC-1'' = None
   \<and> ledger demo_stub ''ACC-1'' = Some (account_json ''42'' ''ACC-1'' ''100'')
   \<and> json_Unmarshal demo_lib (account_json ''42'' ''ACC-1'' ''100'') = Inr (acc1 100)
   \<and> is_float64 (Balance (acc1 100)) \<and> is_float64 (Finite 150)
   \<and> float64_less (Balance (acc1 100)) (Finite 150)
   \<and> transfer demo_lib demo_stub [''ACC-1'', ''ACC-2'', ''150''] =
         (Return (shim_Error ''sender doesn't have enough money''),
          demo_stub\<lparr>calls := calls demo_stub @ [GetStateCall ''ACC-1'']\<rparr>)"
proof -
  note h2 = demo_ParseFloat_150
  have h3: "GetState_fault demo_stub ''ACC-1'' = None" by (rule demo_no_faults)
  note h4 = demo_ledger_acc1
  note h5 = demo_Unmarshal_acc1_100
  have h6: "is_float64 (Balance (acc1 100))" by (simp add: acc1_Balance round64_demo)
  have h7: "is_float64 (Finite 150)" by (simp add: round64_demo)
  have h8: "float64_less (Balance (acc1 100)) (Finite 150)" by (simp add: acc1_Balance)
  from transfer_insufficient_funds [OF refl h2 h3 h4 h5 h6 h7 h8, of "''ACC-2''"]
  show ?thesis using h2 h3 h4 h5 h6 h7 h8 by simp
qed

text \<open>Rounding at \<open>2 ^ 53\<close>, where the float64 numbers start to be the even integers.\<close>

lemma round64_2_53:
  "round64 9007199254740991 = Finite 9007199254740991"
  "round64 9007199254740992 = Finite 9007199254740992"
  "round64 9007199254740993 = Finite 9007199254740992"
  "round64 9007199254740994 = Finite 9007199254740994"
  "round64 9007199254740995 = Finite 9007199254740996"
  by code_simp+

lemma round64_1_2: "round64 1 = Finite 1" "round64 2 = Finite 2"
  using round64_of_int [of 1] round64_of_int [of 2] by simp_all

text \<open>
  Claim C10 says that a transfer from an account to itself, with a balance of at least
  the amount, succeeds and leaves the stored balance equal to the prior balance plus
  the amount, so that it creates funds. The receiver's write does come last and does
  carry the credit, but the credit is a float64 addition. With the balance
  \<open>2 ^ 53\<close> and the amount \<open>1\<close> (both float64 values), the transfer succeeds and
  the stored balance is \<open>2 ^ 53\<close> as before, not \<open>2 ^ 53 + 1\<close>: the sum is rounded
  back to \<open>2 ^ 53\<close>, and here the self-transfer is a no-op.
\<close>

theorem transfer_to_self_counterexample:
  "stored_Balance demo_lib absorbing_stub ''ACC-1'' = Some (Finite 9007199254740992)
   \<and> strconv_ParseFloat demo_lib ''1'' = Inr (Finite 1)
   \<and> is_float64 (Finite 9007199254740992) \<and> is_float64 (Finite 1)
   \<and> float64_le (Finite 1) (Finite 9007199254740992)
   \<and> fst (transfer demo_lib absorbing_stub [''ACC-1'', ''ACC-1'', ''1'']) =
       Return (shim_Success NoPayload)
   \<and> stored_Balance demo_lib
         (snd (transfer demo_lib absorbing_stub [''ACC-1'', ''ACC-1'', ''1''])) ''ACC-1'' =
       Some (Finite 9007199254740992)
   \<and> stored_Balance demo_lib
         (snd (transfer demo_lib absorbing_stub [''ACC-1'', ''ACC-1'', ''1''])) ''ACC-1'' \<noteq>
       Some (Finite (9007199254740992 + 1))
   \<and> calls (snd (transfer demo_lib absorbing_stub [''ACC-1'', ''ACC-1'', ''1''])) =
       [GetStateCall ''ACC-1'', GetStateCall ''ACC-1'',
        PutStateCall ''ACC-1'' (account_json ''42'' ''ACC-1'' ''9007199254740991''),
        PutStateCall ''ACC-1'' (account_json ''42'' ''ACC-1'' ''9007199254740992'')]"
proof -
  have u: "json_Unmarshal demo_lib (account_json ''42'' ''ACC-1'' ''9007199254740992'') =
             Inr (acc1 9007199254740992)"
    by (simp add: demo_lib_def demo_Unmarshal_def demo_records_def account_json_def)
  have m1: "json_Marshal demo_lib (acc1 9007199254740991) =
              (account_json ''42'' ''ACC-1'' ''9007199254740991'', None)"
    by (simp add: demo_lib_def demo_Marshal_def demo_records_def acc1_def acc2_def)
  have m2: "json_Marshal demo_lib (acc1 9007199254740992) =
              (account_json ''42'' ''ACC-1'' ''9007199254740992'', None)"
    by (simp add: demo_lib_def demo_Marshal_def demo_records_def acc1_def acc2_def)
  have p: "strconv_ParseFloat demo_lib ''1'' = Inr (Finite 1)"
    by (simp add: demo_lib_def demo_ParseFloat_def)
  have l: "ledger absorbing_stub ''ACC-1'' =
             Some (account_json ''42'' ''ACC-1'' ''9007199254740992'')"
    "GetState_fault absorbing_stub key = None" "PutState_fault absorbing_stub key val = None"
    for key val
    by (simp_all add: absorbing_stub_def demo_stub_def)
  have tr: "transfer demo_lib absorbing_stub [''ACC-1'', ''ACC-1'', ''1''] =
        (Return (shim_Success NoPayload),
         absorbing_stub\<lparr>ledger :=
           [''ACC-1'' \<mapsto> account_json ''42'' ''ACC-1'' ''9007199254740992''],
           calls := [GetStateCall ''ACC-1'', GetStateCall ''ACC-1'',
                     PutStateCall ''ACC-1'' (account_json ''42'' ''ACC-1'' ''9007199254740991''),
                     PutStateCall ''ACC-1''
                       (account_json ''42'' ''ACC-1'' ''9007199254740992'')]\<rparr>)"
    by (simp add: transfer_def p GetState_def PutState_def Let_def l u
        acc1_Balance round64_2_53 m1 m2)
       (simp add: absorbing_stub_def demo_stub_def)
  show ?thesis
    by (simp only: tr fst_conv snd_conv)
       (simp add: stored_Balance_def l u acc1_Balance p round64_2_53 round64_1_2)
qed

text \<open>
  Claim C10, amended. For a transfer from a key to itself, with the record read
  without fault and decodable, a balance of at least the amount, and the receiver's
  write (the second of the two) accepted, \<^verbatim>\<open>transfer\<close> returns success, and the
  bytes then stored under the key are those of \<^verbatim>\<open>json.Marshal\<close> for the record
  with its balance set to the float64 sum of the old balance and the amount: both
  records are decoded from the state before any write, and the receiver's write
  overwrites the sender's. Whenever these bytes decode again to that record, the stored
  balance is that float64 sum; and it is exactly the old balance plus the amount when
  both are finite and their sum is a float64 value.
\<close>

theorem transfer_to_self_credits:
  assumes "params = [A, A, amountText]"
    and "strconv_ParseFloat lib amountText = Inr amount"
    and "GetState_fault stub A = None"
    and "ledger stub A = Some state"
    and "json_Unmarshal lib state = Inr account"
    and "float64_le amount (Balance account)"
    and "PutState_fault stub A
           (fst (json_Marshal lib
              (account\<lparr>Balance := float64_add (Balance account) amount\<rparr>))) = None"
  shows "fst (transfer lib stub params) = Return (shim_Success NoPayload)
         \<and> ledger (snd (transfer lib stub params)) A =
             Some (fst (json_Marshal lib
               (account\<lparr>Balance := float64_add (Balance account) amount\<rparr>)))
         \<and> (json_Unmarshal lib
               (fst (json_Marshal lib
                  (account\<lparr>Balance := float64_add (Balance account) amount\<rparr>))) =
             Inr (account\<lparr>Balance := float64_add (Balance account) amount\<rparr>) \<longrightarrow>
             stored_Balance lib (snd (transfer lib stub params)) A =
               Some (float64_add (Balance account) amount)
             \<and> (\<forall>b m. Balance account = Finite b \<and> amount = Finite m
                   \<and> round64 (b + m) = Finite (b + m) \<longrightarrow>
                 stored_Balance lib (snd (transfer lib stub params)) A =
                   Some (Finite (b + m))))"
proof -
  have enough: "\<not> float64_less (float64_sub (Balance account) amount) (Finite 0)"
    using assms(6) by (rule float64_sub_not_less_zero)
  have stored: "ledger (snd (transfer lib stub params)) A =
      Some (fst (json_Marshal lib (account\<lparr>Balance := float64_add (Balance account) amount\<rparr>)))"
    using assms(1-5) assms(7) enough
    by (simp add: transfer_def GetState_def PutState_def Let_def split_beta
        split: option.split)
  have ok: "fst (transfer lib stub params) = Return (shim_Success NoPayload)"
    using assms(1-5) enough
    by (simp add: transfer_def GetState_def PutState_def Let_def split_beta
        split: option.split)
  show ?thesis
    by (auto simp add: ok stored stored_Balance_def)
qed

theorem transfer_to_self_credits_witness:
  "strconv_ParseFloat demo_lib ''30'' = Inr (Finite 30)
   \<and> GetState_fault demo_stub ''ACC-1'' = None
   \<and> ledger demo_stub ''ACC-1'' = Some (account_json ''42'' ''ACC-1'' ''100'')
   \<and> json_Unmarshal demo_lib (account_json ''42'' ''ACC-1'' ''100'') = Inr (acc1 100)
   \<and> float64_le (Finite 30) (Balance (acc1 100))
   \<and> PutState_fault demo_stub ''ACC-1'' (fst (json_Marshal demo_lib (acc1 130))) = None
   \<and> json_Unmarshal demo_lib (fst (json_Marshal demo_lib (acc1 130))) = Inr (acc1 130)
   \<and> round64 (100 + 30) = Finite (100 + 30)
   \<and> stored_Balance demo_lib demo_stub ''ACC-1'' = Some (Finite 100)
   \<and> fst (transfer demo_lib demo_stub [''ACC-1'', ''ACC-1'', ''30'']) =
       Return (shim_Success NoPayload)
   \<and> ledger (snd (transfer demo_lib demo_stub [''ACC-1'', ''ACC-1'', ''30''])) ''ACC-1'' =
       Some (account_json ''42'' ''ACC-1'' ''130'')
   \<and> stored_Balance demo_lib (snd (transfer demo_lib demo_stub [''ACC-1'', ''ACC-1'', ''30'']))
         ''ACC-1'' = Some (Finite (100 + 30))"
proof -
  have new: "(acc1 100)\<lparr>Balance := float64_add (Balance (acc1 100)) (Finite 30)\<rparr> = acc1 130"
    by (simp add: acc1_Balance round64_demo)
  note h2 = demo_ParseFloat_30
  have h3: "GetState_fault demo_stub ''ACC-1'' = None" by (rule demo_no_faults)
  note h4 = demo_ledger_acc1
  note h5 = demo_Unmarshal_acc1_100
  have h6: "float64_le (Finite 30) (Balance (acc1 100))" by (simp add: acc1_Balance)
  have h7: "PutState_fault demo_stub ''ACC-1'' (fst (json_Marshal demo_lib (acc1 130))) = None"
    by (rule demo_no_faults)
  have h8: "json_Unmarshal demo_lib (fst (json_Marshal demo_lib (acc1 130))) = Inr (acc1 130)"
    by (simp add: demo_Marshal_acc1_130 demo_Unmarshal_acc1_130)
  have exact: "round64 (100 + 30) = Finite (100 + 30)" by (simp add: round64_demo)
  have before: "stored_Balance demo_lib demo_stub ''ACC-1'' = Some (Finite 100)"
    by (simp add: stored_Balance_def h4 h5 acc1_Balance)
  from transfer_to_self_credits [OF refl h2 h3 h4 h5 h6 h7 [folded new]]
  have run: "fst (transfer demo_lib demo_stub [''ACC-1'', ''ACC-1'', ''30'']) =
               Return (shim_Success NoPayload)
             \<and> ledger (snd (transfer demo_lib demo_stub [''ACC-1'', ''ACC-1'', ''30'']))
                 ''ACC-1'' = Some (fst (json_Marshal demo_lib (acc1 130)))
             \<and> stored_Balance demo_lib
                 (snd (transfer demo_lib demo_stub [''ACC-1'', ''ACC-1'', ''30''])) ''ACC-1'' =
               Some (Finite (100 + 30))"
    using h8 exact by (simp add: new acc1_Balance)
  show ?thesis using h2 h3 h4 h5 h6 h7 h8 exact before run
    by (simp add: demo_Marshal_acc1_130)
qed

text \<open>
  Claim C2 says that a transfer between two distinct accounts, with a sender's balance
  of at least the amount, succeeds, debits the sender and credits the receiver by the
  amount, and leaves the sum of the two balances unchanged. The balances are float64,
  so the debit and the credit are each rounded, and the sum is not conserved. With
  balances \<open>2 ^ 53 + 2\<close> and \<open>1\<close> and the amount \<open>2 ^ 53\<close> (all three are float64
  values), the transfer succeeds; the sender's balance becomes \<open>2\<close>, and the
  receiver's \<open>1 + 2 ^ 53\<close> is rounded to \<open>2 ^ 53\<close>: the exact sum of the balances
  was \<open>2 ^ 53 + 3\<close> and is \<open>2 ^ 53 + 2\<close>, and their float64 sum was \<open>2 ^ 53 + 4\<close>
  and is \<open>2 ^ 53 + 2\<close>.
\<close>

theorem transfer_sum_counterexample:
  "stored_Balance demo_lib rounding_stub ''ACC-1'' = Some (Finite 9007199254740994)
   \<and> stored_Balance demo_lib rounding_stub ''ACC-2'' = Some (Finite 1)
   \<and> strconv_ParseFloat demo_lib ''9007199254740992'' = Inr (Finite 9007199254740992)
   \<and> is_float64 (Finite 9007199254740994) \<and> is_float64 (Finite 1)
   \<and> is_float64 (Finite 9007199254740992)
   \<and> float64_le (Finite 9007199254740992) (Finite 9007199254740994)
   \<and> fst (transfer demo_lib rounding_stub [''ACC-1'', ''ACC-2'', ''9007199254740992'']) =
       Return (shim_Success NoPayload)
   \<and> stored_Balance demo_lib
         (snd (transfer demo_lib rounding_stub [''ACC-1'', ''ACC-2'', ''9007199254740992'']))
         ''ACC-1'' = Some (Finite 2)
   \<and> stored_Balance demo_lib
         (snd (transfer demo_lib rounding_stub [''ACC-1'', ''ACC-2'', ''9007199254740992'']))
         ''ACC-2'' = Some (Finite 9007199254740992)
   \<and> balance_sum (stored_Balance demo_lib rounding_stub ''ACC-1'')
         (stored_Balance demo_lib rounding_stub ''ACC-2'') = Some 9007199254740995
   \<and> balance_sum
         (stored_Balance demo_lib
            (snd (transfer demo_lib rounding_stub [''ACC-1'', ''ACC-2'', ''9007199254740992'']))
            ''ACC-1'')
         (stored_Balance demo_lib
            (snd (transfer demo_lib rounding_stub [''ACC-1'', ''ACC-2'', ''9007199254740992'']))
            ''ACC-2'') = Some 9007199254740994
   \<and> balance_sum
         (stored_Balance demo_lib
            (snd (transfer demo_lib rounding_stub [''ACC-1'', ''ACC-2'', ''9007199254740992'']))
            ''ACC-1'')
         (stored_Balance demo_lib
            (snd (transfer demo_lib rounding_stub [''ACC-1'', ''ACC-2'', ''9007199254740992'']))
            ''ACC-2'') \<noteq>
       balance_sum (stored_Balance demo_lib rounding_stub ''ACC-1'')
         (stored_Balance demo_lib rounding_stub ''ACC-2'')
   \<and> float64_add (Finite 9007199254740994) (Finite 1) = Finite 9007199254740996
   \<and> float64_add (Finite 2) (Finite 9007199254740992) = Finite 9007199254740994"
proof -
  have u1: "json_Unmarshal demo_lib (account_json ''42'' ''ACC-1'' ''9007199254740994'') =
              Inr (acc1 9007199254740994)"
    by (simp add: demo_lib_def demo_Unmarshal_def demo_records_def account_json_def)
  have u2: "json_Unmarshal demo_lib (account_json ''43'' ''ACC-2'' ''1'') = Inr (acc2 1)"
    by (simp add: demo_lib_def demo_Unmarshal_def demo_records_def account_json_def)
  have u3: "json_Unmarshal demo_lib (account_json ''42'' ''ACC-1'' ''2'') = Inr (acc1 2)"
    by (simp add: demo_lib_def demo_Unmarshal_def demo_records_def account_json_def)
  have u4: "json_Unmarshal demo_lib (account_json ''43'' ''ACC-2'' ''9007199254740992'') =
              Inr (acc2 9007199254740992)"
    by (simp add: demo_lib_def demo_Unmarshal_def demo_records_def account_json_def)
  have m1: "json_Marshal demo_lib (acc1 2) = (account_json ''42'' ''ACC-1'' ''2'', None)"
    by (simp add: demo_lib_def demo_Marshal_def demo_records_def acc1_def acc2_def)
  have m2: "json_Marshal demo_lib (acc2 9007199254740992) =
              (account_json ''43'' ''ACC-2'' ''9007199254740992'', None)"
    by (simp add: demo_lib_def demo_Marshal_def demo_records_def acc1_def acc2_def)
  have p: "strconv_ParseFloat demo_lib ''9007199254740992'' = Inr (Finite 9007199254740992)"
    by (simp add: demo_lib_def demo_ParseFloat_def)
  have l: "ledger rounding_stub ''ACC-1'' =
             Some (account_json ''42'' ''ACC-1'' ''9007199254740994'')"
    "ledger rounding_stub ''ACC-2'' = Some (account_json ''43'' ''ACC-2'' ''1'')"
    "GetState_fault rounding_stub key = None" "PutState_fault rounding_stub key val = None"
    for key val
    by (simp_all add: rounding_stub_def demo_stub_def)
  have tr: "transfer demo_lib rounding_stub [''ACC-1'', ''ACC-2'', ''9007199254740992''] =
        (Return (shim_Success NoPayload),
         rounding_stub\<lparr>ledger :=
           [''ACC-1'' \<mapsto> account_json ''42'' ''ACC-1'' ''2'',
            ''ACC-2'' \<mapsto> account_json ''43'' ''ACC-2'' ''9007199254740992''],
           calls := [GetStateCall ''ACC-1'', GetStateCall ''ACC-2'',
                     PutStateCall ''ACC-1'' (account_json ''42'' ''ACC-1'' ''2''),
                     PutStateCall ''ACC-2''
                       (account_json ''43'' ''ACC-2'' ''9007199254740992'')]\<rparr>)"
    by (simp add: transfer_def p GetState_def PutState_def Let_def l u1 u2
        acc1_Balance acc2_Balance round64_2_53 round64_1_2 m1 m2)
       (simp add: rounding_stub_def demo_stub_def)
  show ?thesis
    by (simp only: tr fst_conv snd_conv)
       (simp add: stored_Balance_def l u1 u2 u3 u4 acc1_Balance acc2_Balance p
          round64_2_53 round64_1_2)
qed

text \<open>
  Claim C2, amended. With two distinct keys, both records read without fault and
  decodable, a sender's balance of at least the amount, and both writes accepted,
  \<^verbatim>\<open>transfer\<close> returns success, and the ledger afterwards is the ledger before
  with the bytes under the two keys replaced by those of \<^verbatim>\<open>json.Marshal\<close> for the
  two updated records: the sender's with the float64 difference of its old balance and
  the amount, the receiver's with the float64 sum of its old balance and the amount.
  Whenever these bytes decode again to the two updated records, the stored balances
  are that difference and that sum; and when moreover the three numbers are finite and
  neither the difference nor the sum had to be rounded, the exact sum of the two
  balances is what it was.
\<close>

theorem transfer_moves_amount:
  assumes "params = [A, B, amountText]"
    and "A \<noteq> B"
    and "strconv_ParseFloat lib amountText = Inr amount"
    and "GetState_fault stub A = None"
    and "GetState_fault stub B = None"
    and "ledger stub A = Some senderState"
    and "ledger stub B = Some receiverState"
    and "json_Unmarshal lib senderState = Inr senderAccount"
    and "json_Unmarshal lib receiverState = Inr receiverAccount"
    and "float64_le amount (Balance senderAccount)"
    and "PutState_fault stub A
           (fst (json_Marshal lib
              (senderAccount\<lparr>Balance := float64_sub (Balance senderAccount) amount\<rparr>))) = None"
    and "PutState_fault stub B
           (fst (json_Marshal lib
              (receiverAccount\<lparr>Balance := float64_add (Balance receiverAccount) amount\<rparr>))) = None"
  shows "fst (transfer lib stub params) = Return (shim_Success NoPayload)
         \<and> ledger (snd (transfer lib stub params)) =
             (ledger stub)
               (A \<mapsto> fst (json_Marshal lib
                  (senderAccount\<lparr>Balance := float64_sub (Balance senderAccount) amount\<rparr>)),
                B \<mapsto> fst (json_Marshal lib
                  (receiverAccount\<lparr>Balance := float64_add (Balance receiverAccount) amount\<rparr>)))
         \<and> (json_Unmarshal lib
               (fst (json_Marshal lib
                  (senderAccount\<lparr>Balance := float64_sub (Balance senderAccount) amount\<rparr>))) =
             Inr (senderAccount\<lparr>Balance := float64_sub (Balance senderAccount) amount\<rparr>)
             \<and> json_Unmarshal lib
               (fst (json_Marshal lib
                  (receiverAccount\<lparr>Balance := float64_add (Balance receiverAccount) amount\<rparr>))) =
             Inr (receiverAccount\<lparr>Balance := float64_add (Balance receiverAccount) amount\<rparr>)
             \<longrightarrow>
             stored_Balance lib (snd (transfer lib stub params)) A =
               Some (float64_sub (Balance senderAccount) amount)
             \<and> stored_Balance lib (snd (transfer lib stub params)) B =
               Some (float64_add (Balance receiverAccount) amount)
             \<and> (\<forall>a b m. Balance senderAccount = Finite a \<and> Balance receiverAccount = Finite b
                   \<and> amount = Finite m \<and> round64 (a - m) = Finite (a - m)
                   \<and> round64 (b + m) = Finite (b + m) \<longrightarrow>
                 balance_sum (stored_Balance lib (snd (transfer lib stub params)) A)
                   (stored_Balance lib (snd (transfer lib stub params)) B) = Some (a + b)
                 \<and> balance_sum (stored_Balance lib stub A) (stored_Balance lib stub B) =
                     Some (a + b)))"
proof -
  let ?sender' = "senderAccount\<lparr>Balance := float64_sub (Balance senderAccount) amount\<rparr>"
  let ?receiver' =
    "receiverAccount\<lparr>Balance := float64_add (Balance receiverAccount) amount\<rparr>"
  have enough: "\<not> float64_less (float64_sub (Balance senderAccount) amount) (Finite 0)"
    using assms(10) by (rule float64_sub_not_less_zero)
  have run: "transfer lib stub params =
      (Return (shim_Success NoPayload),
       stub\<lparr>ledger := (ledger stub)
               (A \<mapsto> fst (json_Marshal lib ?sender'),
                B \<mapsto> fst (json_Marshal lib ?receiver')),
             calls := calls stub @
               [GetStateCall A, GetStateCall B,
                PutStateCall A (fst (json_Marshal lib ?sender')),
                PutStateCall B (fst (json_Marshal lib ?receiver'))]\<rparr>)"
    using assms(1-9) assms(11-12) enough
    by (simp add: transfer_def GetState_def PutState_def Let_def)
  have before: "stored_Balance lib stub A = Some (Balance senderAccount)"
    "stored_Balance lib stub B = Some (Balance receiverAccount)"
    using assms(6-9) by (simp_all add: stored_Balance_def)
  have after: "stored_Balance lib (snd (transfer lib stub params)) A =
                 Some (float64_sub (Balance senderAccount) amount)
               \<and> stored_Balance lib (snd (transfer lib stub params)) B =
                 Some (float64_add (Balance receiverAccount) amount)"
    if "json_Unmarshal lib (fst (json_Marshal lib ?sender')) = Inr ?sender'"
      and "json_Unmarshal lib (fst (json_Marshal lib ?receiver')) = Inr ?receiver'"
    using that assms(2) by (simp add: run stored_Balance_def)
  show ?thesis
  proof (intro conjI impI)
    show "fst (transfer lib stub params) = Return (shim_Success NoPayload)"
      by (simp add: run)
    show "ledger (snd (transfer lib stub params)) =
            (ledger stub)
              (A \<mapsto> fst (json_Marshal lib ?sender'),
               B \<mapsto> fst (json_Marshal lib ?receiver'))"
      by (simp add: run)
  next
    assume rt: "json_Unmarshal lib (fst (json_Marshal lib ?sender')) = Inr ?sender'
                \<and> json_Unmarshal lib (fst (json_Marshal lib ?receiver')) = Inr ?receiver'"
    then show "stored_Balance lib (snd (transfer lib stub params)) A =
                 Some (float64_sub (Balance senderAccount) amount)"
      using after by blast
    from rt show "stored_Balance lib (snd (transfer lib stub params)) B =
                 Some (float64_add (Balance receiverAccount) amount)"
      using after by blast
    from rt after
    have both: "stored_Balance lib (snd (transfer lib stub params)) A =
                 Some (float64_sub (Balance senderAccount) amount)"
      "stored_Balance lib (snd (transfer lib stub params)) B =
                 Some (float64_add (Balance receiverAccount) amount)"
      by blast+
    show "\<forall>a b m. Balance senderAccount = Finite a \<and> Balance receiverAccount = Finite b
                   \<and> amount = Finite m \<and> round64 (a - m) = Finite (a - m)
                   \<and> round64 (b + m) = Finite (b + m) \<longrightarrow>
                 balance_sum (stored_Balance lib (snd (transfer lib stub params)) A)
                   (stored_Balance lib (snd (transfer lib stub params)) B) = Some (a + b)
                 \<and> balance_sum (stored_Balance lib stub A) (stored_Balance lib stub B) =
                     Some (a + b)"
      by (simp only: both before) simp
  qed
qed

theorem transfer_moves_amount_witness:
  "''ACC-1'' \<noteq> ''ACC-2''
   \<and> strconv_ParseFloat demo_lib ''30'' = Inr (Finite 30)
   \<and> GetState_fault demo_stub ''ACC-1'' = None \<and> GetState_fault demo_stub ''ACC-2'' = None
   \<and> ledger demo_stub ''ACC-1'' = Some (account_json ''42'' ''ACC-1'' ''100'')
   \<and> ledger demo_stub ''ACC-2'' = Some (account_json ''43'' ''ACC-2'' ''0'')
   \<and> json_Unmarshal demo_lib (account_json ''42'' ''ACC-1'' ''100'') = Inr (acc1 100)
   \<and> json_Unmarshal demo_lib (account_json ''43'' ''ACC-2'' ''0'') = Inr (acc2 0)
   \<and> float64_le (Finite 30) (Balance (acc1 100))
   \<and> PutState_fault demo_stub ''ACC-1'' (fst (json_Marshal demo_lib (acc1 70))) = None
   \<and> PutState_fault demo_stub ''ACC-2'' (fst (json_Marshal demo_lib (acc2 30))) = None
   \<and> json_Unmarshal demo_lib (fst (json_Marshal demo_lib (acc1 70))) = Inr (acc1 70)
   \<and> json_Unmarshal demo_lib (fst (json_Marshal demo_lib (acc2 30))) = Inr (acc2 30)
   \<and> round64 (100 - 30) = Finite (100 - 30) \<and> round64 (0 + 30) = Finite (0 + 30)
   \<and> fst (transfer demo_lib demo_stub [''ACC-1'', ''ACC-2'', ''30'']) =
       Return (shim_Success NoPayload)
   \<and> ledger (snd (transfer demo_lib demo_stub [''ACC-1'', ''ACC-2'', ''30''])) =
       (ledger demo_stub)
         (''ACC-1'' \<mapsto> account_json ''42'' ''ACC-1'' ''70'',
          ''ACC-2'' \<mapsto> account_json ''43'' ''ACC-2'' ''30'')
   \<and> stored_Balance demo_lib (snd (transfer demo_lib demo_stub [''ACC-1'', ''ACC-2'', ''30'']))
         ''ACC-1'' = Some (Finite 70)
   \<and> stored_Balance demo_lib (snd (transfer demo_lib demo_stub [''ACC-1'', ''ACC-2'', ''30'']))
         ''ACC-2'' = Some (Finite 30)
   \<and> balance_sum
         (stored_Balance demo_lib (snd (transfer demo_lib demo_stub [''ACC-1'', ''ACC-2'', ''30'']))
            ''ACC-1'')
         (stored_Balance demo_lib (snd (transfer demo_lib demo_stub [''ACC-1'', ''ACC-2'', ''30'']))
            ''ACC-2'') = Some (100 + 0)
   \<and> balance_sum (stored_Balance demo_lib demo_stub ''ACC-1'')
         (stored_Balance demo_lib demo_stub ''ACC-2'') = Some (100 + 0)"
proof -
  have new1: "(acc1 100)\<lparr>Balance := float64_sub (Balance (acc1 100)) (Finite 30)\<rparr> = acc1 70"
    by (simp add: acc1_Balance round64_demo)
  have new2: "(acc2 0)\<lparr>Balance := float64_add (Balance (acc2 0)) (Finite 30)\<rparr> = acc2 30"
    by (simp add: acc2_Balance round64_demo)
  have h2: "''ACC-1'' \<noteq> ''ACC-2''" by simp
  note h3 = demo_ParseFloat_30
  have h4: "GetState_fault demo_stub ''ACC-1'' = None" by (rule demo_no_faults)
  have h5: "GetState_fault demo_stub ''ACC-2'' = None" by (rule demo_no_faults)
  note h6 = demo_ledger_acc1
  note h7 = demo_ledger_acc2
  note h8 = demo_Unmarshal_acc1_100
  note h9 = demo_Unmarshal_acc2_0
  have h10: "float64_le (Finite 30) (Balance (acc1 100))" by (simp add: acc1_Balance)
  have h11: "PutState_fault demo_stub ''ACC-1'' (fst (json_Marshal demo_lib (acc1 70))) = None"
    by (rule demo_no_faults)
  have h12: "PutState_fault demo_stub ''ACC-2'' (fst (json_Marshal demo_lib (acc2 30))) = None"
    by (rule demo_no_faults)
  have h13: "json_Unmarshal demo_lib (fst (json_Marshal demo_lib (acc1 70))) = Inr (acc1 70)"
    by (simp add: demo_Marshal_acc1_70 demo_Unmarshal_acc1_70)
  have h14: "json_Unmarshal demo_lib (fst (json_Marshal demo_lib (acc2 30))) = Inr (acc2 30)"
    by (simp add: demo_Marshal_acc2_30 demo_Unmarshal_acc2_30)
  have exact: "round64 (100 - 30) = Finite (100 - 30)" "round64 (0 + 30) = Finite (0 + 30)"
    by (simp_all add: round64_demo)
  from transfer_moves_amount
         [OF refl h2 h3 h4 h5 h6 h7 h8 h9 h10 h11 [folded new1] h12 [folded new2]]
  have run: "fst (transfer demo_lib demo_stub [''ACC-1'', ''ACC-2'', ''30'']) =
       Return (shim_Success NoPayload)
   \<and> ledger (snd (transfer demo_lib demo_stub [''ACC-1'', ''ACC-2'', ''30''])) =
       (ledger demo_stub)
         (''ACC-1'' \<mapsto> fst (json_Marshal demo_lib (acc1 70)),
          ''ACC-2'' \<mapsto> fst (json_Marshal demo_lib (acc2 30)))
   \<and> stored_Balance demo_lib (snd (transfer demo_lib demo_stub [''ACC-1'', ''ACC-2'', ''30'']))
         ''ACC-1'' = Some (Finite 70)
   \<and> stored_Balance demo_lib (snd (transfer demo_lib demo_stub [''ACC-1'', ''ACC-2'', ''30'']))
         ''ACC-2'' = Some (Finite 30)
   \<and> balance_sum
         (stored_Balance demo_lib (snd (transfer demo_lib demo_stub [''ACC-1'', ''ACC-2'', ''30'']))
            ''ACC-1'')
         (stored_Balance demo_lib (snd (transfer demo_lib demo_stub [''ACC-1'', ''ACC-2'', ''30'']))
            ''ACC-2'') = Some (100 + 0)
   \<and> balance_sum (stored_Balance demo_lib demo_stub ''ACC-1'')
         (stored_Balance demo_lib demo_stub ''ACC-2'') = Some (100 + 0)"
    using h13 h14 exact
    by (simp add: acc1_Balance acc2_Balance round64_demo)
  show ?thesis using h2 h3 h4 h5 h6 h7 h8 h9 h10 h11 h12 h13 h14 exact run
    by (simp add: demo_Marshal_acc1_70 demo_Marshal_acc2_30)
qed

subsection \<open>getHistory\<close>

text \<open>
  Claim C8 says that \<^verbatim>\<open>getHistory\<close> fails with HistoryUnavailable, without
  iterating, when the ledger cannot produce the history, and with HistoryReadError
  when \<^verbatim>\<open>Next\<close> fails. The second half holds: an error of \<^verbatim>\<open>Next\<close> after any
  number of good entries returns the error response
  "failed get Next() for historyIterator". The first half does not: the handler drops
  the error response it builds for the error of \<^verbatim>\<open>GetHistoryForKey\<close> and goes on
  to call \<^verbatim>\<open>HasNext\<close> on the nil iterator, so the call panics and returns no
  response.
\<close>

theorem getHistory_errors:
  "(params = [accountId] \<and> key_history stub accountId = Inl err \<longrightarrow>
      fst (getHistory lib stub params) = Panic)
   \<and> (params = [accountId]
        \<and> key_history stub accountId = Inr (map Inr entries @ Inl err # rest) \<longrightarrow>
      fst (getHistory lib stub params) =
        Return (shim_Error ''failed get Next() for historyIterator''))"
proof -
  have loop: "history_loop lib (map Inr entries @ Inl err # rest) history =
                Inl (shim_Error ''failed get Next() for historyIterator'')" for history
    by (induction entries arbitrary: history) simp_all
  show ?thesis
    by (simp add: getHistory_def GetHistoryForKey_def Let_def loop)
qed

theorem getHistory_errors_witness:
  "key_history (demo_stub\<lparr>key_history := (\<lambda>key. Inl ''history is disabled'')\<rparr>) ''ACC-1'' =
     Inl ''history is disabled''
   \<and> fst (getHistory demo_lib
         (demo_stub\<lparr>key_history := (\<lambda>key. Inl ''history is disabled'')\<rparr>) [''ACC-1'']) = Panic
   \<and> key_history
         (demo_stub\<lparr>key_history :=
            (\<lambda>key. Inr [Inr \<lparr>TxId = ''tx2'', Value = account_json ''42'' ''ACC-1'' ''70'',
                              IsDelete = False\<rparr>,
                          Inl ''connection reset''])\<rparr>) ''ACC-1'' =
       Inr (map Inr [\<lparr>TxId = ''tx2'', Value = account_json ''42'' ''ACC-1'' ''70'',
                       IsDelete = False\<rparr>] @ Inl ''connection reset'' # [])
   \<and> fst (getHistory demo_lib
         (demo_stub\<lparr>key_history :=
            (\<lambda>key. Inr [Inr \<lparr>TxId = ''tx2'', Value = account_json ''42'' ''ACC-1'' ''70'',
                              IsDelete = False\<rparr>,
                          Inl ''connection reset''])\<rparr>) [''ACC-1'']) =
       Return (shim_Error ''failed get Next() for historyIterator'')"
proof -
  have h1: "key_history (demo_stub\<lparr>key_history := (\<lambda>key. Inl ''history is disabled'')\<rparr>)
              ''ACC-1'' = Inl ''history is disabled''"
    by simp
  have h2: "key_history
         (demo_stub\<lparr>key_history :=
            (\<lambda>key. Inr [Inr \<lparr>TxId = ''tx2'', Value = account_json ''42'' ''ACC-1'' ''70'',
                              IsDelete = False\<rparr>,
                          Inl ''connection reset''])\<rparr>) ''ACC-1'' =
       Inr (map Inr [\<lparr>TxId = ''tx2'', Value = account_json ''42'' ''ACC-1'' ''70'',
                       IsDelete = False\<rparr>] @ Inl ''connection reset'' # [])"
    by simp
  have a: "fst (getHistory demo_lib
         (demo_stub\<lparr>key_history := (\<lambda>key. Inl ''history is disabled'')\<rparr>) [''ACC-1'']) = Panic"
    using getHistory_errors
            [of "[''ACC-1'']" "''ACC-1''"
                "demo_stub\<lparr>key_history := (\<lambda>key. Inl ''history is disabled'')\<rparr>"
                "''history is disabled''" demo_lib]
      h1 by blast
  have b: "fst (getHistory demo_lib
         (demo_stub\<lparr>key_history :=
            (\<lambda>key. Inr [Inr \<lparr>TxId = ''tx2'', Value = account_json ''42'' ''ACC-1'' ''70'',
                              IsDelete = False\<rparr>,
                          Inl ''connection reset''])\<rparr>) [''ACC-1'']) =
       Return (shim_Error ''failed get Next() for historyIterator'')"
    using getHistory_errors
            [of "[''ACC-1'']" "''ACC-1''"
                "demo_stub\<lparr>key_history :=
                   (\<lambda>key. Inr [Inr \<lparr>TxId = ''tx2'', Value = account_json ''42'' ''ACC-1'' ''70'',
                                     IsDelete = False\<rparr>,
                                 Inl ''connection reset''])\<rparr>"
                "''connection reset''" demo_lib
                "[\<lparr>TxId = ''tx2'', Value = account_json ''42'' ''ACC-1'' ''70'',
                   IsDelete = False\<rparr>]"
                "[]"]
      h2 by blast
  show ?thesis using h1 h2 a b by blast
qed

end
